theory Spec2Isabelle
  imports Complex_Main "HOL-Library.Finite_Map"
begin

section \<open>The Trilinos sparse matrix wrapper of FiPy (fipy/matrices/trilinosMatrix.py)\<close>

text \<open>
  The theory embeds the classes \<^verbatim>\<open>_TrilinosMatrixBase\<close>, \<^verbatim>\<open>_TrilinosMatrix\<close>,
  \<^verbatim>\<open>_TrilinosIdentityMatrix\<close> and \<^verbatim>\<open>_TrilinosMeshMatrix\<close> and the two vector
  conversion functions of the module. Floating point values are modelled as \<^typ>\<open>real\<close>,
  Python integers as \<^typ>\<open>int\<close>. A method that mutates its receiver takes the receiver
  and returns the updated one; a Python exception is a value \<open>Inl e\<close>; a call of
  \<^verbatim>\<open>warnings.warn\<close> is an entry of a returned list of messages.

  Python names that are not Isabelle identifiers are renamed:
  \<^verbatim>\<open>_add\<close> is \<open>add_impl\<close>, \<^verbatim>\<open>__add__\<close> is \<open>py_add\<close>, \<^verbatim>\<open>__radd__\<close> is \<open>py_radd\<close>,
  \<^verbatim>\<open>__sub__\<close> is \<open>py_sub\<close>, \<^verbatim>\<open>__iadd__\<close> is \<open>py_iadd\<close>, \<^verbatim>\<open>__getitem__\<close> is
  \<open>py_getitem\<close>, the scalar branch of \<^verbatim>\<open>__mul__\<close> is \<open>mul_scalar\<close>, and a leading
  underscore is dropped.
\<close>

subsection \<open>Python values\<close>

datatype py_error = AttributeError | ValueError | IndexError | ZeroDivisionError | TypeError

datatype dtype = Int32 | Int64

text \<open>An index argument is a Python sequence (no \<^verbatim>\<open>dtype\<close> attribute) or a numpy array.\<close>

datatype id_array = PySeq "int list" | NdArray dtype "int list"

text \<open>\<^verbatim>\<open>astype('int32')\<close> of a 64-bit integer keeps the low 32 bits, read as two's complement.\<close>

definition int32_of :: "int \<Rightarrow> int" where
  "int32_of x = (x + 2 ^ 31) mod 2 ^ 32 - 2 ^ 31"

text \<open>
  The guard of \<^verbatim>\<open>put\<close> and \<^verbatim>\<open>addAt\<close>:
  \<^verbatim>\<open>if hasattr(id, 'dtype') and id.dtype.name == 'int64': id = id.astype('int32')\<close>.
\<close>

fun astype_int32_if_int64 :: "id_array \<Rightarrow> id_array" where
  "astype_int32_if_int64 (PySeq xs) = PySeq xs"
| "astype_int32_if_int64 (NdArray Int64 xs) = NdArray Int32 (map int32_of xs)"
| "astype_int32_if_int64 (NdArray Int32 xs) = NdArray Int32 xs"

fun ids_of :: "id_array \<Rightarrow> int list" where
  "ids_of (PySeq xs) = xs"
| "ids_of (NdArray d xs) = xs"

text \<open>\<^verbatim>\<open>numerix.arange(n)\<close>, \<^verbatim>\<open>numerix.zeros(n)\<close> and \<^verbatim>\<open>numerix.ones(n)\<close>.\<close>

definition arange :: "nat \<Rightarrow> id_array" where
  "arange n = NdArray Int64 (map int [0..<n])"

definition zeros :: "nat \<Rightarrow> real list" where
  "zeros n = replicate n 0"

definition ones :: "nat \<Rightarrow> real list" where
  "ones n = replicate n 1"

subsection \<open>The Epetra objects the wrapper drives\<close>

text \<open>
  PyTrilinos is a library outside the repository. Its objects are modelled from the
  specification's data model of the matrix
  (\<open>rowMap\<close>, \<open>colMap\<close>, \<open>fillState\<close>, \<open>entries: mapping from (globalRow, globalCol) to float64\<close>),
  as seen by one process. Two counters record how often \<^verbatim>\<open>FillComplete\<close> and
  \<^verbatim>\<open>OptimizeStorage\<close> were invoked on the object.
\<close>

record epetra_map =
  NumGlobalElements :: int
  MyGlobalElements :: "int list"

type_synonym position = "int \<times> int"

record crs_matrix =
  RowMap :: epetra_map
  ColMap :: epetra_map
  Filled :: bool
  StorageOptimized :: bool
  entries :: "(position, real) fmap"
  FillCompleteCalls :: nat
  OptimizeStorageCalls :: nat

text \<open>Modelled from the spec: \<^verbatim>\<open>Epetra.Map(n, ids, 0, comm)\<close>, the index map of the data model.\<close>

definition Epetra_Map :: "int \<Rightarrow> int list \<Rightarrow> epetra_map" where
  "Epetra_Map n ids = \<lparr>NumGlobalElements = n, MyGlobalElements = ids\<rparr>"

text \<open>
  Modelled from the spec: \<^verbatim>\<open>Epetra.CrsMatrix(Epetra.Copy, rowMap, colMap, bandwidth)\<close>;
  a matrix is created UNFILLED with an empty structure (the bandwidth is a size hint only).
\<close>

definition CrsMatrix_new :: "epetra_map \<Rightarrow> epetra_map \<Rightarrow> int \<Rightarrow> crs_matrix" where
  "CrsMatrix_new rmap cmap bw =
     \<lparr>RowMap = rmap, ColMap = cmap, Filled = False, StorageOptimized = False,
      entries = fmempty, FillCompleteCalls = 0, OptimizeStorageCalls = 0\<rparr>"

text \<open>
  Modelled from the spec: the copy constructor \<^verbatim>\<open>Epetra.CrsMatrix(m)\<close> gives a new object
  with the maps, the fill state, the structure and the values of \<open>m\<close>.
\<close>

definition CrsMatrix_copy :: "crs_matrix \<Rightarrow> crs_matrix" where
  "CrsMatrix_copy m = m\<lparr>FillCompleteCalls := 0, OptimizeStorageCalls := 0\<rparr>"

text \<open>The value read at a position, an unstored position counted as zero.\<close>

definition entry_at :: "(position, real) fmap \<Rightarrow> position \<Rightarrow> real" where
  "entry_at e p = (case fmlookup e p of None \<Rightarrow> 0 | Some x \<Rightarrow> x)"

definition value_at :: "crs_matrix \<Rightarrow> position \<Rightarrow> real" where
  "value_at m p = entry_at (entries m) p"

text \<open>The nonzero structure: the set of positions with a stored entry.\<close>

definition pattern :: "crs_matrix \<Rightarrow> position fset" where
  "pattern m = fmdom (entries m)"

text \<open>Modelled from the spec: the number of stored nonzeros and of global rows.\<close>

definition NumGlobalNonzeros :: "crs_matrix \<Rightarrow> int" where
  "NumGlobalNonzeros m = int (fcard (fmdom (entries m)))"

definition NumGlobalRows :: "crs_matrix \<Rightarrow> int" where
  "NumGlobalRows m = NumGlobalElements (RowMap m)"

text \<open>
  Modelled from the spec: \<^verbatim>\<open>FillComplete\<close> is the one-way transition UNFILLED to FILLED,
  \<^verbatim>\<open>OptimizeStorage\<close> the structural optimization (compaction); neither changes a
  stored value or the structure.
\<close>

definition FillComplete :: "crs_matrix \<Rightarrow> crs_matrix" where
  "FillComplete m = m\<lparr>Filled := True, FillCompleteCalls := Suc (FillCompleteCalls m)\<rparr>"

definition OptimizeStorage :: "crs_matrix \<Rightarrow> crs_matrix" where
  "OptimizeStorage m =
     m\<lparr>StorageOptimized := True, OptimizeStorageCalls := Suc (OptimizeStorageCalls m)\<rparr>"

text \<open>
  Modelled from the spec: insertion adds a structural position; a position that repeats,
  within a call or across calls, accumulates.
\<close>

fun insert_values :: "(position, real) fmap \<Rightarrow> (int \<times> int \<times> real) list \<Rightarrow> (position, real) fmap" where
  "insert_values e [] = e"
| "insert_values e ((r, c, v) # ts) = insert_values (fmupd (r, c) (entry_at e (r, c) + v) e) ts"

text \<open>
  Modelled from the spec: summing into, or replacing at, a position without a structural
  entry drops the value and makes the error code nonzero; the other positions of the
  batch are updated.
\<close>

fun sum_into_values :: "(position, real) fmap \<Rightarrow> (int \<times> int \<times> real) list \<Rightarrow> int \<times> (position, real) fmap" where
  "sum_into_values e [] = (0, e)"
| "sum_into_values e ((r, c, v) # ts) =
     (case fmlookup e (r, c) of
        None \<Rightarrow> (2, snd (sum_into_values e ts))
      | Some x \<Rightarrow> sum_into_values (fmupd (r, c) (x + v) e) ts)"

fun replace_values :: "(position, real) fmap \<Rightarrow> (int \<times> int \<times> real) list \<Rightarrow> int \<times> (position, real) fmap" where
  "replace_values e [] = (0, e)"
| "replace_values e ((r, c, v) # ts) =
     (case fmlookup e (r, c) of
        None \<Rightarrow> (2, snd (replace_values e ts))
      | Some x \<Rightarrow> replace_values (fmupd (r, c) v e) ts)"

text \<open>
  The three-array forms of the PyTrilinos calls: arrays of unequal length are rejected
  with an exception, otherwise the error code and the updated matrix are returned.
  Insertion into a FILLED matrix is refused with a nonzero code (the wrapper never
  attempts it).
\<close>

definition triples :: "int list \<Rightarrow> int list \<Rightarrow> real list \<Rightarrow> (int \<times> int \<times> real) list" where
  "triples rows cols vals = zip rows (zip cols vals)"

definition InsertGlobalValues ::
  "crs_matrix \<Rightarrow> int list \<Rightarrow> int list \<Rightarrow> real list \<Rightarrow> py_error + (int \<times> crs_matrix)" where
  "InsertGlobalValues m rows cols vals =
     (if length rows \<noteq> length vals \<or> length cols \<noteq> length vals then Inl ValueError
      else if Filled m then Inr (- 2, m)
      else Inr (0, m\<lparr>entries := insert_values (entries m) (triples rows cols vals)\<rparr>))"

definition SumIntoGlobalValues ::
  "crs_matrix \<Rightarrow> int list \<Rightarrow> int list \<Rightarrow> real list \<Rightarrow> py_error + (int \<times> crs_matrix)" where
  "SumIntoGlobalValues m rows cols vals =
     (if length rows \<noteq> length vals \<or> length cols \<noteq> length vals then Inl ValueError
      else (let (code, e) = sum_into_values (entries m) (triples rows cols vals)
            in Inr (code, m\<lparr>entries := e\<rparr>)))"

definition ReplaceGlobalValues ::
  "crs_matrix \<Rightarrow> int list \<Rightarrow> int list \<Rightarrow> real list \<Rightarrow> py_error + (int \<times> crs_matrix)" where
  "ReplaceGlobalValues m rows cols vals =
     (if length rows \<noteq> length vals \<or> length cols \<noteq> length vals then Inl ValueError
      else (let (code, e) = replace_values (entries m) (triples rows cols vals)
            in Inr (code, m\<lparr>entries := e\<rparr>)))"

text \<open>Modelled from the spec: scaling multiplies every stored value and keeps the structure.\<close>

definition Scale :: "crs_matrix \<Rightarrow> real \<Rightarrow> crs_matrix" where
  "Scale m x = m\<lparr>entries := fmmap (\<lambda>v. x * v) (entries m)\<rparr>"

text \<open>
  Modelled from the spec: \<^verbatim>\<open>EpetraExt.Add(A, False, scalarA, B, scalarB)\<close> accumulates
  \<open>scalarA * A\<close> into \<open>scalarB * B\<close>. The source matrix must be FILLED. A FILLED receiver
  keeps its structure: a value of \<open>A\<close> at a position the receiver lacks is dropped and the
  error code is nonzero. An UNFILLED receiver gains the positions of \<open>A\<close>.
\<close>

definition EpetraExt_Add :: "crs_matrix \<Rightarrow> real \<Rightarrow> crs_matrix \<Rightarrow> real \<Rightarrow> int \<times> crs_matrix" where
  "EpetraExt_Add A scalarA B scalarB =
     (if \<not> Filled A then (- 1, B)
      else
        let summed = fmmap_keys (\<lambda>p b. scalarB * b + scalarA * value_at A p) (entries B)
        in if Filled B
           then (if fmdom (entries A) |\<subseteq>| fmdom (entries B) then 0 else 2,
                 B\<lparr>entries := summed\<rparr>)
           else (0, B\<lparr>entries := fmmap (\<lambda>a. scalarA * a) (entries A) ++\<^sub>f summed\<rparr>))"

subsection \<open>The class \<^verbatim>\<open>_TrilinosMatrixBase\<close>\<close>

text \<open>
  The wrapper object: the Epetra matrix it holds, the two non-overlapping maps and the
  bandwidth. (The overlapping maps and the communicator are not read by the methods below.)
\<close>

record trilinos_matrix =
  matrix :: crs_matrix
  nonOverlappingRowMap :: epetra_map
  nonOverlappingColMap :: epetra_map
  bandwidth :: int

text \<open>
  \<^verbatim>\<open>__init__(matrix, bandwidth=None, nonOverlappingRowMap=None, nonOverlappingColMap=None)\<close>.
  Without a bandwidth the constructor divides by the number of global rows
  (integer division, which raises on zero).
\<close>

definition TrilinosMatrixBase_init ::
  "crs_matrix \<Rightarrow> int option \<Rightarrow> epetra_map option \<Rightarrow> epetra_map option \<Rightarrow> py_error + trilinos_matrix" where
  "TrilinosMatrixBase_init m bw rmap cmap =
     (let rm = (case rmap of None \<Rightarrow> RowMap m | Some x \<Rightarrow> x);
          cm = (case cmap of None \<Rightarrow> ColMap m | Some x \<Rightarrow> x)
      in case bw of
           None \<Rightarrow>
             if NumGlobalRows m = 0 then Inl ZeroDivisionError
             else Inr \<lparr>matrix = m, nonOverlappingRowMap = rm, nonOverlappingColMap = cm,
                       bandwidth = (NumGlobalNonzeros m + NumGlobalRows m - 1) div NumGlobalRows m\<rparr>
         | Some b \<Rightarrow>
             Inr \<lparr>matrix = m, nonOverlappingRowMap = rm, nonOverlappingColMap = cm, bandwidth = b\<rparr>)"

text \<open>The recurring guard \<^verbatim>\<open>if not self.matrix.Filled(): self.matrix.FillComplete()\<close>.\<close>

definition fill_if_unfilled :: "trilinos_matrix \<Rightarrow> trilinos_matrix" where
  "fill_if_unfilled self =
     (if \<not> Filled (matrix self) then self\<lparr>matrix := FillComplete (matrix self)\<rparr> else self)"

text \<open>\<^verbatim>\<open>copy\<close>: the result (or the exception of the constructor) and the updated receiver.\<close>

definition copy :: "trilinos_matrix \<Rightarrow> (py_error + trilinos_matrix) \<times> trilinos_matrix" where
  "copy self =
     (let self1 = fill_if_unfilled self
      in (TrilinosMatrixBase_init (CrsMatrix_copy (matrix self1)) None None None, self1))"

text \<open>\<^verbatim>\<open>__getitem__\<close> at an index \<open>(row, col)\<close>: the element read and the updated receiver.\<close>

definition py_getitem :: "trilinos_matrix \<Rightarrow> position \<Rightarrow> real \<times> trilinos_matrix" where
  "py_getitem self index =
     (let self1 = fill_if_unfilled self
      in (value_at (matrix self1) index, self1))"

definition put_warning :: string where
  "put_warning = ''ReplaceGlobalValues returned error code in put''"

definition addAt_warning :: string where
  "addAt_warning = ''Summing into unfilled matrix returned error code''"

text \<open>\<^verbatim>\<open>put\<close>: the updated receiver and the warnings the call emitted.\<close>

definition put ::
  "trilinos_matrix \<Rightarrow> real list \<Rightarrow> id_array \<Rightarrow> id_array \<Rightarrow> py_error + (trilinos_matrix \<times> string list)" where
  "put self vector id1 id2 =
     (let id1 = astype_int32_if_int64 id1;
          id2 = astype_int32_if_int64 id2
      in if Filled (matrix self) then
           (case ReplaceGlobalValues (matrix self) (ids_of id1) (ids_of id2) vector of
              Inl e \<Rightarrow> Inl e
            | Inr (code, m) \<Rightarrow> Inr (self\<lparr>matrix := m\<rparr>, if code \<noteq> 0 then [put_warning] else []))
         else if NumGlobalNonzeros (matrix self) = 0 then
           (case InsertGlobalValues (matrix self) (ids_of id1) (ids_of id2) vector of
              Inl e \<Rightarrow> Inl e
            | Inr (code, m) \<Rightarrow> Inr (self\<lparr>matrix := m\<rparr>, []))
         else
           (case InsertGlobalValues (matrix self) (ids_of id1) (ids_of id2) (zeros (length vector)) of
              Inl e \<Rightarrow> Inl e
            | Inr (code0, m0) \<Rightarrow>
                (let m1 = (if \<not> Filled m0 then FillComplete m0 else m0)
                 in case ReplaceGlobalValues m1 (ids_of id1) (ids_of id2) vector of
                      Inl e \<Rightarrow> Inl e
                    | Inr (code, m) \<Rightarrow>
                        Inr (self\<lparr>matrix := m\<rparr>, if code \<noteq> 0 then [put_warning] else []))))"

text \<open>\<^verbatim>\<open>takeDiagonal\<close>: the diagonal over the non-overlapping column map and the updated receiver.\<close>

definition takeDiagonal :: "trilinos_matrix \<Rightarrow> real list \<times> trilinos_matrix" where
  "takeDiagonal self =
     (let self1 = fill_if_unfilled self
      in (map (\<lambda>g. value_at (matrix self1) (g, g)) (MyGlobalElements (nonOverlappingColMap self1)),
          self1))"

text \<open>\<^verbatim>\<open>addAt\<close>: the updated receiver and the warnings the call emitted.\<close>

definition addAt ::
  "trilinos_matrix \<Rightarrow> real list \<Rightarrow> id_array \<Rightarrow> id_array \<Rightarrow> py_error + (trilinos_matrix \<times> string list)" where
  "addAt self vector id1 id2 =
     (let id1 = astype_int32_if_int64 id1;
          id2 = astype_int32_if_int64 id2
      in if \<not> Filled (matrix self) then
           (case InsertGlobalValues (matrix self) (ids_of id1) (ids_of id2) vector of
              Inl e \<Rightarrow> Inl e
            | Inr (code, m) \<Rightarrow> Inr (self\<lparr>matrix := m\<rparr>, []))
         else
           (case SumIntoGlobalValues (matrix self) (ids_of id1) (ids_of id2) vector of
              Inl e \<Rightarrow> Inl e
            | Inr (code, m) \<Rightarrow> Inr (self\<lparr>matrix := m\<rparr>, if code \<noteq> 0 then [addAt_warning] else [])))"

text \<open>
  \<^verbatim>\<open>exportMmf\<close>: the file written (its name, the dimensions and the stored triples) and
  the updated receiver.
\<close>

record mmf_file =
  mmf_name :: string
  mmf_rows :: int
  mmf_cols :: int
  mmf_entries :: "(position, real) fmap"

definition exportMmf :: "trilinos_matrix \<Rightarrow> string \<Rightarrow> mmf_file \<times> trilinos_matrix" where
  "exportMmf self filename =
     (let self1 = fill_if_unfilled self
      in (\<lparr>mmf_name = filename, mmf_rows = NumGlobalRows (matrix self1),
            mmf_cols = NumGlobalElements (ColMap (matrix self1)),
            mmf_entries = entries (matrix self1)\<rparr>, self1))"

text \<open>\<^verbatim>\<open>finalize\<close>: the fill is guarded, the storage optimization is not.\<close>

definition finalize :: "trilinos_matrix \<Rightarrow> trilinos_matrix" where
  "finalize self =
     (let self1 = fill_if_unfilled self
      in self1\<lparr>matrix := OptimizeStorage (matrix self1)\<rparr>)"

subsection \<open>The classes \<^verbatim>\<open>_TrilinosMatrix\<close> and \<^verbatim>\<open>_TrilinosIdentityMatrix\<close>\<close>

text \<open>
  \<^verbatim>\<open>_TrilinosMatrix.__init__(rows, cols, bandwidth=1, sizeHint=None)\<close> on the process
  \<open>pid\<close>, without maps passed in: process 0 holds every row and column.
\<close>

definition TrilinosMatrix_init ::
  "nat \<Rightarrow> int \<Rightarrow> int \<Rightarrow> int \<Rightarrow> int option \<Rightarrow> py_error + trilinos_matrix" where
  "TrilinosMatrix_init pid rows cols bw sizeHint =
     (let sz = max rows cols;
          bw1 = (case sizeHint of
                   Some h \<Rightarrow> if bw = 0 then (h + sz - 1) div (if sz \<noteq> 0 then sz else 1) else bw
                 | None \<Rightarrow> bw);
          rmap = (if pid = 0 then Epetra_Map rows [0..rows - 1] else Epetra_Map rows []);
          cmap = (if pid = 0 then Epetra_Map cols [0..cols - 1] else Epetra_Map cols []);
          m = CrsMatrix_new rmap cmap (bw1 * 3 div 2)
      in TrilinosMatrixBase_init m (Some bw1) (Some rmap) (Some cmap))"

text \<open>\<^verbatim>\<open>_TrilinosIdentityMatrix.__init__(size)\<close>.\<close>

definition TrilinosIdentityMatrix_init ::
  "nat \<Rightarrow> nat \<Rightarrow> py_error + (trilinos_matrix \<times> string list)" where
  "TrilinosIdentityMatrix_init pid sz =
     (case TrilinosMatrix_init pid (int sz) (int sz) 1 None of
        Inl e \<Rightarrow> Inl e
      | Inr self \<Rightarrow> (let ids = arange sz in addAt self (ones sz) ids ids))"

subsection \<open>Objects, references and the arithmetic operators\<close>

text \<open>
  The operators return either their receiver or a new object, so matrices live in a
  store and are named by references. The store also collects the warnings. An operator
  returns its result, or the exception raised, together with the store it leaves.
\<close>

datatype operand = PyInt int | PyFloat real | MatRef nat

record store =
  objs :: "nat \<Rightarrow> trilinos_matrix"
  next_ref :: nat
  warnings :: "string list"

type_synonym 'a outcome = "(py_error + 'a) \<times> store"

definition alloc :: "trilinos_matrix \<Rightarrow> store \<Rightarrow> nat \<times> store" where
  "alloc m s = (next_ref s, s\<lparr>objs := (objs s)(next_ref s := m), next_ref := Suc (next_ref s)\<rparr>)"

definition set_obj :: "nat \<Rightarrow> trilinos_matrix \<Rightarrow> store \<Rightarrow> store" where
  "set_obj r m s = s\<lparr>objs := (objs s)(r := m)\<rparr>"

definition warn_if :: "bool \<Rightarrow> string \<Rightarrow> store \<Rightarrow> store" where
  "warn_if b msg s = (if b then s\<lparr>warnings := warnings s @ [msg]\<rparr> else s)"

text \<open>Sequencing: an exception ends the computation and keeps the store reached.\<close>

definition and_then :: "'a outcome \<Rightarrow> ('a \<Rightarrow> store \<Rightarrow> 'b outcome) \<Rightarrow> 'b outcome" where
  "and_then x f = (case x of (Inl e, s) \<Rightarrow> (Inl e, s) | (Inr a, s) \<Rightarrow> f a s)"

definition fill_ref :: "nat \<Rightarrow> store \<Rightarrow> store" where
  "fill_ref r s = set_obj r (fill_if_unfilled (objs s r)) s"

text \<open>\<^verbatim>\<open>self.copy()\<close> on a reference: the copy is a new object.\<close>

definition copy_ref :: "nat \<Rightarrow> store \<Rightarrow> nat outcome" where
  "copy_ref self s =
     (case copy (objs s self) of
        (r, self1) \<Rightarrow>
          (let s1 = set_obj self self1 s
           in case r of
                Inl e \<Rightarrow> (Inl e, s1)
              | Inr c \<Rightarrow> (case alloc c s1 of (new, s2) \<Rightarrow> (Inr new, s2))))"

text \<open>
  The branch of \<^verbatim>\<open>__mul__\<close> taken for a scalar operand (\<^verbatim>\<open>numerix.shape(other) == ()\<close>):
  \<^verbatim>\<open>result = self.copy(); result.matrix.Scale(other); return result\<close>.
\<close>

definition mul_scalar :: "nat \<Rightarrow> real \<Rightarrow> store \<Rightarrow> nat outcome" where
  "mul_scalar self x s =
     and_then (copy_ref self s) (\<lambda>result s1.
       (Inr result,
        set_obj result ((objs s1 result)\<lparr>matrix := Scale (matrix (objs s1 result)) x\<rparr>) s1))"

definition iadd_warning1 :: string where
  "iadd_warning1 = ''EpetraExt.Add returned error code in __iadd__, 1''"

definition iadd_warning2 :: string where
  "iadd_warning2 = ''EpetraExt.Add returned error code in __iadd__, 2''"

definition iadd_warning :: string where
  "iadd_warning = ''EpetraExt.Add returned error code in __iadd__''"

text \<open>
  \<^verbatim>\<open>__iadd__\<close>. The test \<^verbatim>\<open>other != 0\<close> is false for the numbers \<open>0\<close> and \<open>0.0\<close> and
  taken as true for a matrix; any other number has no attribute \<^verbatim>\<open>matrix\<close>.
\<close>

definition py_iadd :: "nat \<Rightarrow> operand \<Rightarrow> store \<Rightarrow> nat outcome" where
  "py_iadd self other s =
     (case other of
        PyInt n \<Rightarrow> if n \<noteq> 0 then (Inl AttributeError, s) else (Inr self, s)
      | PyFloat x \<Rightarrow> if x \<noteq> 0 then (Inl AttributeError, s) else (Inr self, s)
      | MatRef oref \<Rightarrow>
          (let s1 = fill_ref oref s;
               sm = matrix (objs s1 self);
               om = matrix (objs s1 oref)
           in if Filled sm \<and> NumGlobalNonzeros om > NumGlobalNonzeros sm then
                (if NumGlobalRows sm = 0 then (Inl ZeroDivisionError, s1)
                 else
                   (let tempBandwidth = NumGlobalNonzeros om div NumGlobalRows sm + 1;
                        tempMatrix = CrsMatrix_new (nonOverlappingRowMap (objs s1 self))
                                       (nonOverlappingColMap (objs s1 self)) tempBandwidth;
                        (code1, t1) = EpetraExt_Add om 1 tempMatrix 1;
                        s2 = warn_if (code1 \<noteq> 0) iadd_warning1 s1;
                        (code2, t2) = EpetraExt_Add sm 1 t1 1;
                        s3 = warn_if (code2 \<noteq> 0) iadd_warning2 s2
                    in (Inr self, set_obj self ((objs s3 self)\<lparr>matrix := t2\<rparr>) s3)))
              else
                (let (code, m) = EpetraExt_Add om 1 sm 1;
                     s2 = warn_if (code \<noteq> 0) iadd_warning s1
                 in (Inr self, set_obj self ((objs s2 self)\<lparr>matrix := m\<rparr>) s2))))"

text \<open>
  \<^verbatim>\<open>_add(self, other, sign)\<close>. The receiver is fill-completed before \<^verbatim>\<open>other.matrix\<close>
  is read, which raises for a number.
\<close>

definition add_impl :: "nat \<Rightarrow> operand \<Rightarrow> int \<Rightarrow> store \<Rightarrow> nat outcome" where
  "add_impl self other sign s =
     (let s1 = fill_ref self s
      in case other of
           MatRef oref \<Rightarrow>
             (let s2 = fill_ref oref s1
              in if NumGlobalNonzeros (matrix (objs s2 self)) > NumGlobalNonzeros (matrix (objs s2 oref))
                 then
                   and_then (copy_ref self s2) (\<lambda>tempMatrix s3.
                   and_then (mul_scalar oref (of_int sign) s3) (\<lambda>scaled s4.
                   and_then (py_iadd tempMatrix (MatRef scaled) s4) (\<lambda>r s5.
                     (Inr tempMatrix, s5))))
                 else
                   and_then (copy_ref oref s2) (\<lambda>tempMatrix s3.
                   and_then (mul_scalar self (of_int sign) s3) (\<lambda>scaled s4.
                   and_then (py_iadd tempMatrix (MatRef scaled) s4) (\<lambda>r s5.
                     (Inr tempMatrix, s5)))))
         | PyInt n \<Rightarrow> (Inl AttributeError, s1)
         | PyFloat x \<Rightarrow> (Inl AttributeError, s1))"

text \<open>\<^verbatim>\<open>__add__\<close>, \<^verbatim>\<open>__radd__ = __add__\<close> and \<^verbatim>\<open>__sub__\<close>; \<^verbatim>\<open>other is 0\<close> holds for the integer 0 only.\<close>

definition py_add :: "nat \<Rightarrow> operand \<Rightarrow> store \<Rightarrow> nat outcome" where
  "py_add self other s = (if other = PyInt 0 then (Inr self, s) else add_impl self other 1 s)"

definition py_radd :: "nat \<Rightarrow> operand \<Rightarrow> store \<Rightarrow> nat outcome" where
  "py_radd = py_add"

definition py_sub :: "nat \<Rightarrow> operand \<Rightarrow> store \<Rightarrow> nat outcome" where
  "py_sub self other s = (if other = PyInt 0 then (Inr self, s) else add_impl self other (- 1) s)"

subsection \<open>The class \<^verbatim>\<open>_TrilinosMeshMatrix\<close>: translation of local indices\<close>

text \<open>The attributes of the mesh that the matrix reads.\<close>

record mesh =
  globalNonOverlappingCellIDs :: "int list"
  globalOverlappingCellIDs :: "int list"
  localNonOverlappingCellIDs :: "int list"
  globalNumberOfCells :: int
  numberOfCells :: int

record mesh_matrix =
  mesh :: mesh
  numberOfVariables :: int
  numberOfEquations :: int
  base :: trilinos_matrix

text \<open>
  \<^verbatim>\<open>(numerix.vstack([IDs] * M) + numerix.indices((M,N))[0] * globalNumberOfCells).flatten()\<close>:
  block \<open>e\<close> of the result is \<open>IDs\<close> shifted by \<open>e * globalNumberOfCells\<close>;
  \<^verbatim>\<open>vstack\<close> of an empty list of arrays raises.
\<close>

definition cellIDsToGlobalRowIDs :: "mesh_matrix \<Rightarrow> int list \<Rightarrow> py_error + int list" where
  "cellIDsToGlobalRowIDs self IDs =
     (let M = numberOfEquations self
      in if M \<le> 0 then Inl ValueError
         else Inr (concat (map (\<lambda>e. map (\<lambda>c. c + e * globalNumberOfCells (mesh self)) IDs) [0..M - 1])))"

definition globalNonOverlappingRowIDs :: "mesh_matrix \<Rightarrow> py_error + int list" where
  "globalNonOverlappingRowIDs self = cellIDsToGlobalRowIDs self (globalNonOverlappingCellIDs (mesh self))"

definition globalOverlappingRowIDs :: "mesh_matrix \<Rightarrow> py_error + int list" where
  "globalOverlappingRowIDs self = cellIDsToGlobalRowIDs self (globalOverlappingCellIDs (mesh self))"

text \<open>numpy indexing of an array by an integer: a negative index counts from the end.\<close>

definition np_index :: "int list \<Rightarrow> int \<Rightarrow> py_error + int" where
  "np_index table i =
     (let n = int (length table);
          j = (if i < 0 then n + i else i)
      in if 0 \<le> j \<and> j < n then Inr (table ! nat j) else Inl IndexError)"

text \<open>numpy indexing by an integer array, \<^verbatim>\<open>table[ids]\<close>.\<close>

fun np_take :: "int list \<Rightarrow> int list \<Rightarrow> py_error + int list" where
  "np_take table [] = Inr []"
| "np_take table (i # ids) =
     (case np_index table i of
        Inl e \<Rightarrow> Inl e
      | Inr x \<Rightarrow> (case np_take table ids of Inl e \<Rightarrow> Inl e | Inr xs \<Rightarrow> Inr (x # xs)))"

text \<open>\<^verbatim>\<open>numerix.in1d(a, b)\<close>: for each element of \<open>a\<close>, whether it occurs in \<open>b\<close>.\<close>

definition in1d :: "int list \<Rightarrow> int list \<Rightarrow> bool list" where
  "in1d a b = map (\<lambda>x. x \<in> set b) a"

text \<open>numpy indexing by a boolean mask, \<^verbatim>\<open>a[mask]\<close>; the mask must have the length of the array.\<close>

definition np_mask :: "'a list \<Rightarrow> bool list \<Rightarrow> py_error + 'a list" where
  "np_mask a msk =
     (if length msk \<noteq> length a then Inl IndexError
      else Inr (map fst (filter snd (zip a msk))))"

text \<open>\<^verbatim>\<open>_getStencil\<close>: both index arrays are translated by the overlapping row ID table.\<close>

definition getStencil ::
  "mesh_matrix \<Rightarrow> int list \<Rightarrow> int list \<Rightarrow> py_error + (int list \<times> int list \<times> bool list)" where
  "getStencil self id1 id2 =
     (case globalOverlappingRowIDs self of
        Inl e \<Rightarrow> Inl e
      | Inr overlappingIDs \<Rightarrow>
     (case globalNonOverlappingRowIDs self of
        Inl e \<Rightarrow> Inl e
      | Inr nonOverlappingIDs \<Rightarrow>
     (case np_take overlappingIDs id1 of
        Inl e \<Rightarrow> Inl e
      | Inr g1 \<Rightarrow>
     (case np_take overlappingIDs id2 of
        Inl e \<Rightarrow> Inl e
      | Inr g2 \<Rightarrow>
          (let msk = in1d g1 nonOverlappingIDs
           in case np_mask g1 msk of
                Inl e \<Rightarrow> Inl e
              | Inr r1 \<Rightarrow>
                  (case np_mask g2 msk of
                     Inl e \<Rightarrow> Inl e
                   | Inr r2 \<Rightarrow> Inr (r1, r2, msk)))))))"

text \<open>\<^verbatim>\<open>_globalNonOverlapping\<close>: the values are subset by the mask of the stencil.\<close>

definition globalNonOverlapping ::
  "mesh_matrix \<Rightarrow> real list \<Rightarrow> int list \<Rightarrow> int list \<Rightarrow> py_error + (real list \<times> int list \<times> int list)" where
  "globalNonOverlapping self vector id1 id2 =
     (case getStencil self id1 id2 of
        Inl e \<Rightarrow> Inl e
      | Inr (r1, r2, msk) \<Rightarrow>
          (case np_mask vector msk of
             Inl e \<Rightarrow> Inl e
           | Inr v \<Rightarrow> Inr (v, r1, r2)))"

text \<open>\<^verbatim>\<open>_TrilinosMeshMatrix.put\<close> and \<^verbatim>\<open>addAt\<close>: translate, then call the base method.\<close>

definition mesh_put ::
  "mesh_matrix \<Rightarrow> real list \<Rightarrow> int list \<Rightarrow> int list \<Rightarrow> py_error + (mesh_matrix \<times> string list)" where
  "mesh_put self vector id1 id2 =
     (case globalNonOverlapping self vector id1 id2 of
        Inl e \<Rightarrow> Inl e
      | Inr (v, r1, r2) \<Rightarrow>
          (case put (base self) v (NdArray Int64 r1) (NdArray Int64 r2) of
             Inl e \<Rightarrow> Inl e
           | Inr (b, w) \<Rightarrow> Inr (self\<lparr>base := b\<rparr>, w)))"

definition mesh_addAt ::
  "mesh_matrix \<Rightarrow> real list \<Rightarrow> int list \<Rightarrow> int list \<Rightarrow> py_error + (mesh_matrix \<times> string list)" where
  "mesh_addAt self vector id1 id2 =
     (case globalNonOverlapping self vector id1 id2 of
        Inl e \<Rightarrow> Inl e
      | Inr (v, r1, r2) \<Rightarrow>
          (case addAt (base self) v (NdArray Int64 r1) (NdArray Int64 r2) of
             Inl e \<Rightarrow> Inl e
           | Inr (b, w) \<Rightarrow> Inr (self\<lparr>base := b\<rparr>, w)))"

subsection \<open>Vector redistribution\<close>

text \<open>
  The two conversion functions are collective: every process calls them together. A
  distributed map lists, per process, the global IDs the process holds; a distributed
  vector pairs such a map with the local values of each process. The number of processes
  is the length of the map.
\<close>

type_synonym dist_map = "int list list"

record epetra_vector =
  vmap :: dist_map
  vvalues :: "real list list"

definition NumProc :: "dist_map \<Rightarrow> nat" where
  "NumProc m = length m"

definition GlobalLength :: "epetra_vector \<Rightarrow> nat" where
  "GlobalLength v = length (concat (vmap v))"

text \<open>The value a distributed vector holds for a global ID, if some process holds that ID.\<close>

definition value_of_gid :: "epetra_vector \<Rightarrow> int \<Rightarrow> real option" where
  "value_of_gid v g = map_of (zip (concat (vmap v)) (concat (vvalues v))) g"

text \<open>
  Modelled from the spec: \<^verbatim>\<open>target.Import(source, Epetra.Import(targetMap, sourceMap), Epetra.Insert)\<close>
  on a zero-initialised target: every slot of the target receives the source value of its
  global ID; a slot whose ID the source does not hold stays zero.
\<close>

definition Import_Insert :: "dist_map \<Rightarrow> epetra_vector \<Rightarrow> epetra_vector" where
  "Import_Insert targetMap source =
     \<lparr>vmap = targetMap,
      vvalues = map (map (\<lambda>g. case value_of_gid source g of Some x \<Rightarrow> x | None \<Rightarrow> 0)) targetMap\<rparr>"

text \<open>
  \<^verbatim>\<open>_numpyToTrilinosVector(v, map)\<close>, with the replicated vector \<open>v\<close> on every process.
  In serial mode \<^verbatim>\<open>Epetra.Vector(v)\<close> holds \<open>v\<close> itself; otherwise process 0 holds the
  root vector, which is imported into the map.
\<close>

definition numpyToTrilinosVector :: "real list \<Rightarrow> dist_map \<Rightarrow> epetra_vector" where
  "numpyToTrilinosVector v m =
     (if NumProc m = 1 then \<lparr>vmap = [map int [0..<length v]], vvalues = [v]\<rparr>
      else
        (let myElements = (\<lambda>pid. if pid = 0 then length v else 0);
             RootMap = map (\<lambda>pid. map int [0..<myElements pid]) [0..<NumProc m];
             rootVector = \<lparr>vmap = RootMap, vvalues = map (\<lambda>pid. take (myElements pid) v) [0..<NumProc m]\<rparr>
         in Import_Insert m rootVector))"

text \<open>
  \<^verbatim>\<open>_trilinosToNumpyVector(v)\<close>: the numpy array each process ends with. In serial mode
  it is the vector's own array; otherwise every process imports the whole vector.
\<close>

definition trilinosToNumpyVector :: "epetra_vector \<Rightarrow> real list list" where
  "trilinosToNumpyVector v =
     (if NumProc (vmap v) = 1 then vvalues v
      else
        (let PersonalMap = map (\<lambda>pid. map int [0..<GlobalLength v]) [0..<NumProc (vmap v)];
             PersonalV = Import_Insert PersonalMap v
         in vvalues PersonalV))"

subsection \<open>Vocabulary of the properties and example matrices\<close>

text \<open>
  The triples \<open>(row, col, value)\<close> a call of \<^verbatim>\<open>put\<close> or \<^verbatim>\<open>addAt\<close> hands to Epetra, the
  position a triple targets, and the sum of the values a batch holds for a position.
\<close>

definition position_of :: "int \<times> int \<times> real \<Rightarrow> position" where
  "position_of t = (fst t, fst (snd t))"

definition batch_total :: "(int \<times> int \<times> real) list \<Rightarrow> position \<Rightarrow> real" where
  "batch_total ts p = sum_list (map (\<lambda>t. if position_of t = p then snd (snd t) else 0) ts)"

definition targets :: "real list \<Rightarrow> id_array \<Rightarrow> id_array \<Rightarrow> (int \<times> int \<times> real) list" where
  "targets vector id1 id2 =
     triples (ids_of (astype_int32_if_int64 id1)) (ids_of (astype_int32_if_int64 id2)) vector"

text \<open>
  \<^verbatim>\<open>_TrilinosMatrix(rows=3, cols=3)\<close>; the same after \<^verbatim>\<open>addAt((x,), (0,), (0,))\<close>; and the
  latter after \<^verbatim>\<open>finalize()\<close>.
\<close>

definition ex_new3 :: trilinos_matrix where
  "ex_new3 = projr (TrilinosMatrix_init 0 3 3 1 None)"

definition ex_single :: "real \<Rightarrow> trilinos_matrix" where
  "ex_single x = fst (projr (addAt ex_new3 [x] (PySeq [0]) (PySeq [0])))"

definition ex_single_filled :: "real \<Rightarrow> trilinos_matrix" where
  "ex_single_filled x = finalize (ex_single x)"

text \<open>A store holding the matrix \<open>a\<close> at reference 0 and the matrix \<open>b\<close> at every other reference.\<close>

definition ex_store :: "trilinos_matrix \<Rightarrow> trilinos_matrix \<Rightarrow> store" where
  "ex_store a b = \<lparr>objs = (\<lambda>r. if r = 0 then a else b), next_ref = 2, warnings = []\<rparr>"

text \<open>
  The matrix of the doctest of \<^verbatim>\<open>__add__\<close>: \<^verbatim>\<open>L = _TrilinosMatrix(rows=3, cols=3)\<close> after
  \<^verbatim>\<open>L.addAt((3.,10.,numerix.pi,2.5), (0,0,1,2), (2,1,1,0))\<close> and
  \<^verbatim>\<open>L.addAt([0,0,0], [0,1,2], [0,1,2])\<close>; and \<^verbatim>\<open>_TrilinosIdentityMatrix(size=3)\<close>.
\<close>

definition ex_L :: trilinos_matrix where
  "ex_L = fst (projr (addAt (fst (projr (addAt ex_new3 [3, 10, pi, 5 / 2] (PySeq [0, 0, 1, 2]) (PySeq [2, 1, 1, 0]))))
                  [0, 0, 0] (PySeq [0, 1, 2]) (PySeq [0, 1, 2])))"

definition ex_identity3 :: trilinos_matrix where
  "ex_identity3 = fst (projr (TrilinosIdentityMatrix_init 0 3))"





section \<open>Verified properties\<close>

subsection \<open>Facts about the Epetra primitives\<close>

lemma length_ids_astype [simp]: "length (ids_of (astype_int32_if_int64 a)) = length (ids_of a)"
  by (cases a rule: astype_int32_if_int64.cases) simp_all

lemma entry_at_fmupd [simp]: "entry_at (fmupd k v e) p = (if k = p then v else entry_at e p)"
  by (simp add: entry_at_def)

lemma entry_at_notin: "p |\<notin>| fmdom e \<Longrightarrow> entry_at e p = 0"
  by (simp add: entry_at_def fmdom_notD)

lemma fmdom_insert_values:
  "fmdom (insert_values e ts) = fmdom e |\<union>| fset_of_list (map position_of ts)"
  by (induction e ts rule: insert_values.induct) (auto simp: position_of_def)

lemma entry_at_insert_values:
  "entry_at (insert_values e ts) p = entry_at e p + batch_total ts p"
  by (induction e ts rule: insert_values.induct) (auto simp: batch_total_def position_of_def)

lemma fmdom_sum_into_values: "fmdom (snd (sum_into_values e ts)) = fmdom e"
proof (induction e ts rule: sum_into_values.induct)
  case (1 e)
  show ?case by simp
next
  case (2 e r c v ts)
  show ?case
  proof (cases "fmlookup e (r, c)")
    case None
    with 2 show ?thesis by simp
  next
    case (Some x)
    with 2 have "fmdom (snd (sum_into_values e ((r, c, v) # ts))) = finsert (r, c) (fmdom e)"
      by simp
    moreover from Some have "(r, c) |\<in>| fmdom e" by (rule fmdomI)
    ultimately show ?thesis by auto
  qed
qed

lemma entry_at_sum_into_values:
  "entry_at (snd (sum_into_values e ts)) p =
     (if p |\<in>| fmdom e then entry_at e p + batch_total ts p else 0)"
proof (induction e ts rule: sum_into_values.induct)
  case (1 e)
  show ?case by (simp add: batch_total_def entry_at_notin)
next
  case (2 e r c v ts)
  show ?case
  proof (cases "fmlookup e (r, c)")
    case None
    then have "(r, c) |\<notin>| fmdom e" by (simp add: fmdom_notI)
    with None 2 show ?thesis
      by (auto simp: batch_total_def position_of_def)
  next
    case (Some x)
    then have in_dom: "(r, c) |\<in>| fmdom e" by (rule fmdomI)
    from Some have ex: "entry_at e (r, c) = x" by (simp add: entry_at_def)
    from Some 2 in_dom ex show ?thesis
      by (auto simp: batch_total_def position_of_def)
  qed
qed

lemma code_sum_into_values:
  "fst (sum_into_values e ts) = (if \<exists>t \<in> set ts. position_of t |\<notin>| fmdom e then 2 else 0)"
proof (induction e ts rule: sum_into_values.induct)
  case (1 e)
  show ?case by simp
next
  case (2 e r c v ts)
  show ?case
  proof (cases "fmlookup e (r, c)")
    case None
    then have "(r, c) |\<notin>| fmdom e" by (simp add: fmdom_notI)
    with None show ?thesis by (auto simp: position_of_def)
  next
    case (Some x)
    then have in_dom: "(r, c) |\<in>| fmdom e" by (rule fmdomI)
    then have "finsert (r, c) (fmdom e) = fmdom e" by auto
    with Some 2 in_dom show ?thesis by (simp add: position_of_def)
  qed
qed

text \<open>
  Claim C2. On a FILLED matrix, \<^verbatim>\<open>addAt\<close> with a well-formed batch in which at least one
  \<open>(row, col)\<close> pair has no structural position returns normally, emits exactly one
  warning, keeps the matrix FILLED and its structure unchanged, increments every position
  that has a structural entry by the values the batch holds for it, and stores nothing at
  the positions without one.
\<close>

theorem addAt_filled_missing_position:
  assumes "Filled (matrix self)"
    and "length (ids_of id1) = length vector"
    and "length (ids_of id2) = length vector"
    and "\<exists>t \<in> set (targets vector id1 id2). position_of t |\<notin>| pattern (matrix self)"
  shows "\<exists>self'. addAt self vector id1 id2 = Inr (self', [addAt_warning])
           \<and> Filled (matrix self')
           \<and> pattern (matrix self') = pattern (matrix self)
           \<and> (\<forall>p. p |\<in>| pattern (matrix self) \<longrightarrow>
                  value_at (matrix self') p = value_at (matrix self) p + batch_total (targets vector id1 id2) p)
           \<and> (\<forall>p. p |\<notin>| pattern (matrix self) \<longrightarrow> value_at (matrix self') p = 0)"
proof -
  let ?ts = "targets vector id1 id2"
  let ?r = "sum_into_values (entries (matrix self)) ?ts"
  let ?self' = "self\<lparr>matrix := (matrix self)\<lparr>entries := snd ?r\<rparr>\<rparr>"
  from assms(4) have code: "fst ?r = 2"
    by (simp add: code_sum_into_values pattern_def)
  have "addAt self vector id1 id2 = Inr (?self', [addAt_warning])"
    using assms(1-3) code
    by (simp add: addAt_def SumIntoGlobalValues_def targets_def Let_def case_prod_beta)
  moreover have "Filled (matrix ?self')" using assms(1) by simp
  moreover have "pattern (matrix ?self') = pattern (matrix self)"
    by (simp add: pattern_def fmdom_sum_into_values)
  moreover have "\<forall>p. p |\<in>| pattern (matrix self) \<longrightarrow>
      value_at (matrix ?self') p = value_at (matrix self) p + batch_total ?ts p"
    by (simp add: value_at_def pattern_def entry_at_sum_into_values)
  moreover have "\<forall>p. p |\<notin>| pattern (matrix self) \<longrightarrow> value_at (matrix ?self') p = 0"
    by (simp add: value_at_def pattern_def entry_at_sum_into_values)
  ultimately show ?thesis by blast
qed


subsection \<open>The example matrices\<close>

lemma ex_new3_eq:
  "ex_new3 = \<lparr>matrix = CrsMatrix_new (Epetra_Map 3 [0, 1, 2]) (Epetra_Map 3 [0, 1, 2]) 1,
             nonOverlappingRowMap = Epetra_Map 3 [0, 1, 2],
             nonOverlappingColMap = Epetra_Map 3 [0, 1, 2], bandwidth = 1\<rparr>"
  by (simp add: ex_new3_def TrilinosMatrix_init_def TrilinosMatrixBase_init_def Let_def upto_rec1)

lemma ex_single_eq:
  "ex_single x = ex_new3\<lparr>matrix := (matrix ex_new3)\<lparr>entries := fmupd (0, 0) x fmempty\<rparr>\<rparr>"
  by (simp add: ex_single_def ex_new3_eq addAt_def InsertGlobalValues_def CrsMatrix_new_def
      triples_def entry_at_def)

lemma ex_single_filled_simps:
  "Filled (matrix (ex_single_filled x))"
  "entries (matrix (ex_single_filled x)) = fmupd (0, 0) x fmempty"
  by (simp_all add: ex_single_filled_def finalize_def fill_if_unfilled_def ex_single_eq ex_new3_eq
      CrsMatrix_new_def FillComplete_def OptimizeStorage_def Let_def)

theorem addAt_filled_missing_position_witness:
  "Filled (matrix (ex_single_filled 1))
   \<and> position_of (1, 1, 7) |\<notin>| pattern (matrix (ex_single_filled 1))
   \<and> \<not> isl (addAt (ex_single_filled 1) [5, 7] (PySeq [0, 1]) (PySeq [0, 1]))
   \<and> snd (projr (addAt (ex_single_filled 1) [5, 7] (PySeq [0, 1]) (PySeq [0, 1]))) = [addAt_warning]
   \<and> value_at (matrix (fst (projr (addAt (ex_single_filled 1) [5, 7] (PySeq [0, 1]) (PySeq [0, 1]))))) (0, 0) = 6
   \<and> value_at (matrix (fst (projr (addAt (ex_single_filled 1) [5, 7] (PySeq [0, 1]) (PySeq [0, 1]))))) (1, 1) = 0"
proof -
  let ?m = "ex_single_filled 1"
  have h1: "Filled (matrix ?m)" by (simp add: ex_single_filled_simps)
  have h2: "length (ids_of (PySeq [0, 1])) = length [5, 7 :: real]" by simp
  have ts: "targets [5, 7] (PySeq [0, 1]) (PySeq [0, 1]) = [(0, 0, 5), (1, 1, 7)]"
    by (simp add: targets_def triples_def)
  have miss: "position_of (1, 1, 7) |\<notin>| pattern (matrix ?m)"
    by (simp add: position_of_def pattern_def ex_single_filled_simps)
  then have h4: "\<exists>t \<in> set (targets [5, 7] (PySeq [0, 1]) (PySeq [0, 1])). position_of t |\<notin>| pattern (matrix ?m)"
    by (simp add: ts)
  from addAt_filled_missing_position [OF h1 h2 h2 h4]
  obtain self' where r: "addAt ?m [5, 7] (PySeq [0, 1]) (PySeq [0, 1]) = Inr (self', [addAt_warning])"
    and v: "\<forall>p. p |\<in>| pattern (matrix ?m) \<longrightarrow>
          value_at (matrix self') p = value_at (matrix ?m) p + batch_total (targets [5, 7] (PySeq [0, 1]) (PySeq [0, 1])) p"
    and z: "\<forall>p. p |\<notin>| pattern (matrix ?m) \<longrightarrow> value_at (matrix self') p = 0"
    by blast
  have "(0, 0) |\<in>| pattern (matrix ?m)" by (simp add: pattern_def ex_single_filled_simps)
  with v have "value_at (matrix self') (0, 0) = 6"
    by (simp add: ts batch_total_def position_of_def value_at_def entry_at_def ex_single_filled_simps)
  moreover from z miss have "value_at (matrix self') (1, 1) = 0" by (simp add: position_of_def)
  ultimately show ?thesis using h1 miss r by simp
qed

subsection \<open>Replacement, accumulation and the lifecycle\<close>

lemma nnz_zero_entry_at: "NumGlobalNonzeros m = 0 \<Longrightarrow> entry_at (entries m) p = 0"
  by (simp add: NumGlobalNonzeros_def entry_at_notin)

lemma nnz_fmupd_nonzero: "NumGlobalNonzeros (m\<lparr>entries := fmupd p x e\<rparr>) \<noteq> 0"
  by (simp add: NumGlobalNonzeros_def)

lemma put_filled_present:
  assumes "ids_of (astype_int32_if_int64 id1) = [r]" "ids_of (astype_int32_if_int64 id2) = [c]"
    and "Filled (matrix self)" "(r, c) |\<in>| pattern (matrix self)"
  shows "put self [v] id1 id2 = Inr (self\<lparr>matrix := (matrix self)\<lparr>entries := fmupd (r, c) v (entries (matrix self))\<rparr>\<rparr>, [])"
proof -
  from assms(4) obtain x where "fmlookup (entries (matrix self)) (r, c) = Some x"
    by (auto simp: pattern_def)
  with assms(1-3) show ?thesis
    by (simp add: put_def ReplaceGlobalValues_def triples_def Let_def)
qed

lemma put_unfilled_empty:
  assumes "ids_of (astype_int32_if_int64 id1) = [r]" "ids_of (astype_int32_if_int64 id2) = [c]"
    and "\<not> Filled (matrix self)" "NumGlobalNonzeros (matrix self) = 0"
  shows "put self [v] id1 id2 = Inr (self\<lparr>matrix := (matrix self)\<lparr>entries := fmupd (r, c) v (entries (matrix self))\<rparr>\<rparr>, [])"
  using assms
  by (simp add: put_def InsertGlobalValues_def triples_def Let_def nnz_zero_entry_at)

lemma put_unfilled_nonempty:
  assumes "ids_of (astype_int32_if_int64 id1) = [r]" "ids_of (astype_int32_if_int64 id2) = [c]"
    and "\<not> Filled (matrix self)" "NumGlobalNonzeros (matrix self) \<noteq> 0"
  shows "put self [v] id1 id2 =
           Inr (self\<lparr>matrix := (FillComplete (matrix self))\<lparr>entries := fmupd (r, c) v (entries (matrix self))\<rparr>\<rparr>, [])"
  using assms
  by (simp add: put_def InsertGlobalValues_def ReplaceGlobalValues_def triples_def Let_def zeros_def
      FillComplete_def)

lemma addAt_single:
  assumes "ids_of (astype_int32_if_int64 id1) = [r]" "ids_of (astype_int32_if_int64 id2) = [c]"
    and "\<not> Filled (matrix self) \<or> (r, c) |\<in>| pattern (matrix self)"
  shows "addAt self [v] id1 id2 =
           Inr (self\<lparr>matrix := (matrix self)\<lparr>entries :=
                  fmupd (r, c) (value_at (matrix self) (r, c) + v) (entries (matrix self))\<rparr>\<rparr>, [])"
proof (cases "Filled (matrix self)")
  case False
  with assms(1,2) show ?thesis
    by (simp add: addAt_def InsertGlobalValues_def triples_def Let_def value_at_def)
next
  case True
  with assms(3) obtain x where "fmlookup (entries (matrix self)) (r, c) = Some x"
    by (auto simp: pattern_def)
  with True assms(1,2) show ?thesis
    by (simp add: addAt_def SumIntoGlobalValues_def triples_def Let_def value_at_def entry_at_def)
qed

text \<open>
  Claim C5, as amended. For a position \<open>(r, c)\<close> addressed by single-element calls, on a
  matrix that is UNFILLED or already has a structural entry at the position: two
  successive \<^verbatim>\<open>put\<close> calls writing \<open>v1\<close> then \<open>v2\<close> return without a warning and leave
  exactly \<open>v2\<close> stored there and the matrix FILLED (an UNFILLED matrix with nonzeros is
  FILLED by the first call already); two successive \<^verbatim>\<open>addAt\<close> calls leave the value
  read there before, plus \<open>v1 + v2\<close>, stored there.
\<close>

theorem put_twice_addAt_twice:
  assumes "ids_of (astype_int32_if_int64 id1) = [r]"
    and "ids_of (astype_int32_if_int64 id2) = [c]"
    and "\<not> Filled (matrix self) \<or> (r, c) |\<in>| pattern (matrix self)"
  shows "(\<exists>s1 s2. put self [v1] id1 id2 = Inr (s1, []) \<and> put s1 [v2] id1 id2 = Inr (s2, [])
             \<and> fmlookup (entries (matrix s2)) (r, c) = Some v2 \<and> Filled (matrix s2)
             \<and> (\<not> Filled (matrix self) \<and> NumGlobalNonzeros (matrix self) \<noteq> 0 \<longrightarrow> Filled (matrix s1)))
       \<and> (\<exists>a1 a2. addAt self [v1] id1 id2 = Inr (a1, []) \<and> addAt a1 [v2] id1 id2 = Inr (a2, [])
             \<and> fmlookup (entries (matrix a2)) (r, c) = Some (value_at (matrix self) (r, c) + v1 + v2))"
proof
  let ?upd = "\<lambda>m v. m\<lparr>entries := fmupd (r, c) v (entries m)\<rparr>"
  show "\<exists>s1 s2. put self [v1] id1 id2 = Inr (s1, []) \<and> put s1 [v2] id1 id2 = Inr (s2, [])
             \<and> fmlookup (entries (matrix s2)) (r, c) = Some v2 \<and> Filled (matrix s2)
             \<and> (\<not> Filled (matrix self) \<and> NumGlobalNonzeros (matrix self) \<noteq> 0 \<longrightarrow> Filled (matrix s1))"
  proof (cases "Filled (matrix self)")
    case True
    with assms(3) have present: "(r, c) |\<in>| pattern (matrix self)" by simp
    let ?s1 = "self\<lparr>matrix := ?upd (matrix self) v1\<rparr>"
    have p1: "put self [v1] id1 id2 = Inr (?s1, [])"
      using put_filled_present [OF assms(1,2) True present] .
    have "Filled (matrix ?s1)" "(r, c) |\<in>| pattern (matrix ?s1)"
      using True by (simp_all add: pattern_def)
    from put_filled_present [OF assms(1,2) this]
    have p2: "put ?s1 [v2] id1 id2 = Inr (?s1\<lparr>matrix := ?upd (matrix ?s1) v2\<rparr>, [])" .
    show ?thesis
      using True p1 p2 by simp
  next
    case False
    show ?thesis
    proof (cases "NumGlobalNonzeros (matrix self) = 0")
      case True
      let ?s1 = "self\<lparr>matrix := ?upd (matrix self) v1\<rparr>"
      have p1: "put self [v1] id1 id2 = Inr (?s1, [])"
        using put_unfilled_empty [OF assms(1,2) False True] .
      have "\<not> Filled (matrix ?s1)" "NumGlobalNonzeros (matrix ?s1) \<noteq> 0"
        using False by (simp_all add: nnz_fmupd_nonzero)
      from put_unfilled_nonempty [OF assms(1,2) this]
      have p2: "put ?s1 [v2] id1 id2 =
          Inr (?s1\<lparr>matrix := (FillComplete (matrix ?s1))\<lparr>entries := fmupd (r, c) v2 (entries (matrix ?s1))\<rparr>\<rparr>, [])" .
      show ?thesis
        using True p1 p2 by (simp add: FillComplete_def)
    next
      case nonempty: False
      let ?s1 = "self\<lparr>matrix := (FillComplete (matrix self))\<lparr>entries := fmupd (r, c) v1 (entries (matrix self))\<rparr>\<rparr>"
      have p1: "put self [v1] id1 id2 = Inr (?s1, [])"
        using put_unfilled_nonempty [OF assms(1,2) False nonempty] .
      have "Filled (matrix ?s1)" "(r, c) |\<in>| pattern (matrix ?s1)"
        by (simp_all add: pattern_def FillComplete_def)
      from put_filled_present [OF assms(1,2) this]
      have p2: "put ?s1 [v2] id1 id2 = Inr (?s1\<lparr>matrix := ?upd (matrix ?s1) v2\<rparr>, [])" .
      show ?thesis
        using p1 p2 by (simp add: FillComplete_def)
    qed
  qed
next
  let ?a1 = "self\<lparr>matrix := (matrix self)\<lparr>entries :=
                  fmupd (r, c) (value_at (matrix self) (r, c) + v1) (entries (matrix self))\<rparr>\<rparr>"
  have q1: "addAt self [v1] id1 id2 = Inr (?a1, [])"
    using addAt_single [OF assms] .
  have "\<not> Filled (matrix ?a1) \<or> (r, c) |\<in>| pattern (matrix ?a1)"
    using assms(3) by (auto simp: pattern_def)
  from addAt_single [OF assms(1,2) this]
  have q2: "addAt ?a1 [v2] id1 id2 =
      Inr (?a1\<lparr>matrix := (matrix ?a1)\<lparr>entries :=
             fmupd (r, c) (value_at (matrix ?a1) (r, c) + v2) (entries (matrix ?a1))\<rparr>\<rparr>, [])" .
  show "\<exists>a1 a2. addAt self [v1] id1 id2 = Inr (a1, []) \<and> addAt a1 [v2] id1 id2 = Inr (a2, [])
             \<and> fmlookup (entries (matrix a2)) (r, c) = Some (value_at (matrix self) (r, c) + v1 + v2)"
    using q1 q2 by (simp add: value_at_def)
qed


lemma ex_single_simps:
  "\<not> Filled (matrix (ex_single x))"
  "entries (matrix (ex_single x)) = fmupd (0, 0) x fmempty"
  by (simp_all add: ex_single_eq ex_new3_eq CrsMatrix_new_def)

theorem put_twice_addAt_twice_witness:
  "ids_of (astype_int32_if_int64 (NdArray Int64 [0])) = [0]
   \<and> \<not> Filled (matrix (ex_single 1))
   \<and> NumGlobalNonzeros (matrix (ex_single 1)) \<noteq> 0
   \<and> fmlookup (entries (matrix (fst (projr (put (fst (projr (put (ex_single 1)
         [5] (NdArray Int64 [0]) (PySeq [0])))) [7] (NdArray Int64 [0]) (PySeq [0])))))) (0, 0) = Some 7
   \<and> Filled (matrix (fst (projr (put (ex_single 1) [5] (NdArray Int64 [0]) (PySeq [0])))))
   \<and> fmlookup (entries (matrix (fst (projr (addAt (fst (projr (addAt (ex_single 1)
         [5] (NdArray Int64 [0]) (PySeq [0])))) [7] (NdArray Int64 [0]) (PySeq [0])))))) (0, 0) = Some 13"
proof -
  have h1: "ids_of (astype_int32_if_int64 (NdArray Int64 [0])) = [0]"
    by (simp add: int32_of_def)
  have h2: "ids_of (astype_int32_if_int64 (PySeq [0])) = [0]" by simp
  have unfilled: "\<not> Filled (matrix (ex_single 1))" by (simp add: ex_single_simps)
  then have h3: "\<not> Filled (matrix (ex_single 1)) \<or> (0, 0) |\<in>| pattern (matrix (ex_single 1))"
    by simp
  have nnz: "NumGlobalNonzeros (matrix (ex_single 1)) \<noteq> 0"
    by (simp add: NumGlobalNonzeros_def ex_single_simps)
  have val: "value_at (matrix (ex_single 1)) (0, 0) = 1"
    by (simp add: value_at_def ex_single_simps)
  from put_twice_addAt_twice [OF h1 h2 h3, of 5 7]
  obtain s1 s2 a1 a2 where
    "put (ex_single 1) [5] (NdArray Int64 [0]) (PySeq [0]) = Inr (s1, [])"
    "put s1 [7] (NdArray Int64 [0]) (PySeq [0]) = Inr (s2, [])"
    "fmlookup (entries (matrix s2)) (0, 0) = Some 7"
    "\<not> Filled (matrix (ex_single 1)) \<and> NumGlobalNonzeros (matrix (ex_single 1)) \<noteq> 0 \<longrightarrow> Filled (matrix s1)"
    "addAt (ex_single 1) [5] (NdArray Int64 [0]) (PySeq [0]) = Inr (a1, [])"
    "addAt a1 [7] (NdArray Int64 [0]) (PySeq [0]) = Inr (a2, [])"
    "fmlookup (entries (matrix a2)) (0, 0) = Some (value_at (matrix (ex_single 1)) (0, 0) + 5 + 7)"
    by blast
  with h1 unfilled nnz val show ?thesis by simp
qed

text \<open>
  Claim C5 fails on a FILLED matrix without a structural entry at the position: both
  \<^verbatim>\<open>put\<close> calls (and both \<^verbatim>\<open>addAt\<close> calls) warn, leave the matrix as it was, and
  nothing is stored at the position.
\<close>

theorem put_twice_filled_missing_counterexample:
  "Filled (matrix (ex_single_filled 1))
   \<and> put (ex_single_filled 1) [5] (PySeq [1]) (PySeq [1]) = Inr (ex_single_filled 1, [put_warning])
   \<and> put (ex_single_filled 1) [7] (PySeq [1]) (PySeq [1]) = Inr (ex_single_filled 1, [put_warning])
   \<and> fmlookup (entries (matrix (ex_single_filled 1))) (1, 1) = None
   \<and> addAt (ex_single_filled 1) [5] (PySeq [1]) (PySeq [1]) = Inr (ex_single_filled 1, [addAt_warning])
   \<and> addAt (ex_single_filled 1) [7] (PySeq [1]) (PySeq [1]) = Inr (ex_single_filled 1, [addAt_warning])"
  by (simp add: ex_single_filled_simps put_def addAt_def ReplaceGlobalValues_def SumIntoGlobalValues_def
      triples_def Let_def)

text \<open>
  Claim C3, as amended. A second \<^verbatim>\<open>finalize\<close> leaves the structure, the stored values and
  the FILLED state of the first; it differs from the first only in the count of
  \<^verbatim>\<open>OptimizeStorage\<close> invocations. \<^verbatim>\<open>FillComplete\<close> is invoked at most once across the two
  calls, \<^verbatim>\<open>OptimizeStorage\<close> once in each call.
\<close>

theorem finalize_twice:
  "Filled (matrix (finalize self))
   \<and> Filled (matrix (finalize (finalize self)))
   \<and> pattern (matrix (finalize (finalize self))) = pattern (matrix (finalize self))
   \<and> entries (matrix (finalize (finalize self))) = entries (matrix (finalize self))
   \<and> finalize (finalize self) =
       (finalize self)\<lparr>matrix := (matrix (finalize self))\<lparr>OptimizeStorageCalls :=
          Suc (OptimizeStorageCalls (matrix (finalize self)))\<rparr>\<rparr>
   \<and> FillCompleteCalls (matrix (finalize (finalize self))) = FillCompleteCalls (matrix (finalize self))
   \<and> FillCompleteCalls (matrix (finalize self)) \<le> Suc (FillCompleteCalls (matrix self))
   \<and> OptimizeStorageCalls (matrix (finalize self)) = Suc (OptimizeStorageCalls (matrix self))
   \<and> OptimizeStorageCalls (matrix (finalize (finalize self))) = Suc (Suc (OptimizeStorageCalls (matrix self)))"
  by (simp add: finalize_def fill_if_unfilled_def FillComplete_def OptimizeStorage_def pattern_def Let_def)

theorem finalize_twice_witness:
  "Filled (matrix (finalize (finalize ex_new3)))
   \<and> entries (matrix (finalize (finalize ex_new3))) = entries (matrix (finalize ex_new3))
   \<and> FillCompleteCalls (matrix (finalize (finalize ex_new3))) = 1"
  using finalize_twice [of ex_new3]
  by (simp add: finalize_def fill_if_unfilled_def FillComplete_def OptimizeStorage_def Let_def
      ex_new3_eq CrsMatrix_new_def)

text \<open>
  Claim C3 fails in its last part: on a new 3 by 3 matrix two calls of \<^verbatim>\<open>finalize\<close>
  invoke \<^verbatim>\<open>OptimizeStorage\<close> twice.
\<close>

theorem finalize_twice_optimizes_twice_counterexample:
  "OptimizeStorageCalls (matrix ex_new3) = 0
   \<and> OptimizeStorageCalls (matrix (finalize ex_new3)) = 1
   \<and> OptimizeStorageCalls (matrix (finalize (finalize ex_new3))) = 2"
  by (simp add: finalize_def fill_if_unfilled_def FillComplete_def OptimizeStorage_def Let_def
      ex_new3_eq CrsMatrix_new_def)

lemma put_well_formed_unfilled_nonempty:
  assumes "\<not> Filled (matrix self)" "NumGlobalNonzeros (matrix self) \<noteq> 0"
    and "length (ids_of id1) = length vector" "length (ids_of id2) = length vector"
  shows "\<exists>self' w. put self vector id1 id2 = Inr (self', w) \<and> Filled (matrix self')"
  using assms
  by (simp add: put_def InsertGlobalValues_def ReplaceGlobalValues_def Let_def zeros_def
      FillComplete_def case_prod_beta)

text \<open>
  Claim C7, as amended. Each of \<^verbatim>\<open>copy\<close>, \<^verbatim>\<open>__getitem__\<close>, \<^verbatim>\<open>takeDiagonal\<close> and
  \<^verbatim>\<open>exportMmf\<close> leaves its receiver FILLED and its stored entries untouched; they are
  not the only such operations: a well-formed \<^verbatim>\<open>put\<close> on an UNFILLED matrix with stored
  nonzeros leaves it FILLED as well.
\<close>

theorem reads_force_fill:
  "Filled (matrix (snd (copy self)))
   \<and> Filled (matrix (snd (py_getitem self index)))
   \<and> Filled (matrix (snd (takeDiagonal self)))
   \<and> Filled (matrix (snd (exportMmf self filename)))
   \<and> entries (matrix (snd (copy self))) = entries (matrix self)
   \<and> entries (matrix (snd (py_getitem self index))) = entries (matrix self)
   \<and> entries (matrix (snd (takeDiagonal self))) = entries (matrix self)
   \<and> entries (matrix (snd (exportMmf self filename))) = entries (matrix self)
   \<and> (\<not> Filled (matrix self) \<and> NumGlobalNonzeros (matrix self) \<noteq> 0
        \<and> length (ids_of id1) = length vector \<and> length (ids_of id2) = length vector
        \<longrightarrow> (\<exists>self' w. put self vector id1 id2 = Inr (self', w) \<and> Filled (matrix self')))"
  using put_well_formed_unfilled_nonempty [of self id1 vector id2]
  by (simp add: copy_def py_getitem_def takeDiagonal_def exportMmf_def fill_if_unfilled_def
      FillComplete_def Let_def)

theorem reads_force_fill_witness:
  "\<not> Filled (matrix (ex_single 1))
   \<and> NumGlobalNonzeros (matrix (ex_single 1)) \<noteq> 0
   \<and> Filled (matrix (snd (copy (ex_single 1))))
   \<and> Filled (matrix (snd (py_getitem (ex_single 1) (0, 0))))
   \<and> Filled (matrix (snd (takeDiagonal (ex_single 1))))
   \<and> Filled (matrix (snd (exportMmf (ex_single 1) ''m.mtx'')))
   \<and> (\<exists>self' w. put (ex_single 1) [5] (PySeq [0]) (PySeq [0]) = Inr (self', w) \<and> Filled (matrix self'))"
  using reads_force_fill [of "ex_single 1" "(0, 0)" "''m.mtx''" "PySeq [0]" "[5]" "PySeq [0]"]
  by (simp add: ex_single_simps NumGlobalNonzeros_def)

text \<open>
  Claim C7 fails in its last part: \<^verbatim>\<open>put\<close>, which is neither one of the read operations
  nor \<^verbatim>\<open>finalize\<close>, takes an UNFILLED matrix with one stored entry to the FILLED state.
\<close>

theorem put_forces_fill_counterexample:
  "\<not> Filled (matrix (ex_single 1))
   \<and> \<not> isl (put (ex_single 1) [5] (PySeq [0]) (PySeq [0]))
   \<and> Filled (matrix (fst (projr (put (ex_single 1) [5] (PySeq [0]) (PySeq [0])))))"
  by (simp add: ex_single_simps put_def InsertGlobalValues_def ReplaceGlobalValues_def Let_def
      zeros_def FillComplete_def NumGlobalNonzeros_def triples_def entry_at_def)

text \<open>
  Claim C10. \<^verbatim>\<open>A + 0\<close>, \<^verbatim>\<open>0 + A\<close> and \<^verbatim>\<open>A - 0\<close> return the reference of the receiver
  and the store unchanged (no new object, no value changed, no fill forced); \<^verbatim>\<open>A + s\<close>
  raises for every other integer and for every float.
\<close>

theorem zero_operand_returns_receiver:
  "py_add A (PyInt 0) s = (Inr A, s)
   \<and> py_radd A (PyInt 0) s = (Inr A, s)
   \<and> py_sub A (PyInt 0) s = (Inr A, s)
   \<and> (\<forall>n. n \<noteq> 0 \<longrightarrow> fst (py_add A (PyInt n) s) = Inl AttributeError)
   \<and> (\<forall>x. fst (py_add A (PyFloat x) s) = Inl AttributeError)"
  by (simp add: py_add_def py_radd_def py_sub_def add_impl_def Let_def)

theorem zero_operand_returns_receiver_witness:
  "(3::int) \<noteq> 0
   \<and> py_add 0 (PyInt 0) (ex_store ex_new3 ex_new3) = (Inr 0, ex_store ex_new3 ex_new3)
   \<and> py_radd 0 (PyInt 0) (ex_store ex_new3 ex_new3) = (Inr 0, ex_store ex_new3 ex_new3)
   \<and> py_sub 0 (PyInt 0) (ex_store ex_new3 ex_new3) = (Inr 0, ex_store ex_new3 ex_new3)
   \<and> fst (py_add 0 (PyInt 3) (ex_store ex_new3 ex_new3)) = Inl AttributeError
   \<and> fst (py_add 0 (PyFloat 0) (ex_store ex_new3 ex_new3)) = Inl AttributeError"
  using zero_operand_returns_receiver [of 0 "ex_store ex_new3 ex_new3"]
  by simp

subsection \<open>Addition and subtraction of matrices\<close>

lemma entry_at_fmmap_scale: "entry_at (fmmap (\<lambda>v. x * v) e) p = x * entry_at e p"
  by (cases "fmlookup e p") (simp_all add: entry_at_def)

lemma entry_at_fmmap_keys:
  "entry_at (fmmap_keys f e) p = (case fmlookup e p of None \<Rightarrow> 0 | Some x \<Rightarrow> f p x)"
  by (cases "fmlookup e p") (simp_all add: entry_at_def)

lemma value_at_Scale [simp]: "value_at (Scale m x) p = x * value_at m p"
  by (simp add: value_at_def Scale_def entry_at_fmmap_scale)

lemma NumGlobalNonzeros_Scale [simp]: "NumGlobalNonzeros (Scale m x) = NumGlobalNonzeros m"
  by (simp add: NumGlobalNonzeros_def Scale_def)

lemma simple_fields_Scale [simp]:
  "Filled (Scale m x) = Filled m" "RowMap (Scale m x) = RowMap m" "ColMap (Scale m x) = ColMap m"
  "fmdom (entries (Scale m x)) = fmdom (entries m)"
  by (simp_all add: Scale_def)

lemma NumGlobalRows_Scale [simp]: "NumGlobalRows (Scale m x) = NumGlobalRows m"
  by (simp add: NumGlobalRows_def)

lemma fields_CrsMatrix_copy [simp]:
  "Filled (CrsMatrix_copy m) = Filled m" "entries (CrsMatrix_copy m) = entries m"
  "RowMap (CrsMatrix_copy m) = RowMap m" "ColMap (CrsMatrix_copy m) = ColMap m"
  by (simp_all add: CrsMatrix_copy_def)

lemma derived_CrsMatrix_copy [simp]:
  "NumGlobalRows (CrsMatrix_copy m) = NumGlobalRows m"
  "NumGlobalNonzeros (CrsMatrix_copy m) = NumGlobalNonzeros m"
  "value_at (CrsMatrix_copy m) p = value_at m p"
  by (simp_all add: NumGlobalRows_def NumGlobalNonzeros_def value_at_def)

lemma fields_FillComplete [simp]:
  "Filled (FillComplete m)" "entries (FillComplete m) = entries m"
  "RowMap (FillComplete m) = RowMap m" "ColMap (FillComplete m) = ColMap m"
  by (simp_all add: FillComplete_def)

lemma fields_fill_if_unfilled [simp]:
  "Filled (matrix (fill_if_unfilled a))" "entries (matrix (fill_if_unfilled a)) = entries (matrix a)"
  "RowMap (matrix (fill_if_unfilled a)) = RowMap (matrix a)"
  "ColMap (matrix (fill_if_unfilled a)) = ColMap (matrix a)"
  "fill_if_unfilled (fill_if_unfilled a) = fill_if_unfilled a"
  by (simp_all add: fill_if_unfilled_def)

lemma derived_fill_if_unfilled [simp]:
  "NumGlobalRows (matrix (fill_if_unfilled a)) = NumGlobalRows (matrix a)"
  "NumGlobalNonzeros (matrix (fill_if_unfilled a)) = NumGlobalNonzeros (matrix a)"
  "value_at (matrix (fill_if_unfilled a)) p = value_at (matrix a) p"
  by (simp_all add: NumGlobalRows_def NumGlobalNonzeros_def value_at_def)

lemma fill_if_unfilled_filled: "Filled (matrix a) \<Longrightarrow> fill_if_unfilled a = a"
  by (simp add: fill_if_unfilled_def)

lemma copy_ok:
  assumes "NumGlobalRows (matrix a) \<noteq> 0"
  shows "\<exists>c. copy a = (Inr c, fill_if_unfilled a)
          \<and> matrix c = CrsMatrix_copy (matrix (fill_if_unfilled a))"
  using assms by (simp add: copy_def TrilinosMatrixBase_init_def Let_def)

lemma copy_ref_filled:
  assumes "NumGlobalRows (matrix (objs s r)) \<noteq> 0" "Filled (matrix (objs s r))"
  shows "\<exists>c. copy_ref r s = (Inr (next_ref s),
            s\<lparr>objs := (objs s)(next_ref s := c), next_ref := Suc (next_ref s)\<rparr>)
          \<and> matrix c = CrsMatrix_copy (matrix (objs s r))"
proof -
  from copy_ok [OF assms(1)] assms(2) obtain c where
    "copy (objs s r) = (Inr c, objs s r)"
    "matrix c = CrsMatrix_copy (matrix (objs s r))"
    by (auto simp: fill_if_unfilled_filled)
  then show ?thesis
    by (intro exI [of _ c]) (simp add: copy_ref_def set_obj_def alloc_def)
qed

lemma mul_scalar_filled:
  assumes "NumGlobalRows (matrix (objs s r)) \<noteq> 0" "Filled (matrix (objs s r))"
  shows "\<exists>d. mul_scalar r x s = (Inr (next_ref s),
            s\<lparr>objs := (objs s)(next_ref s := d), next_ref := Suc (next_ref s)\<rparr>)
          \<and> matrix d = Scale (CrsMatrix_copy (matrix (objs s r))) x"
proof -
  from copy_ref_filled [OF assms] obtain c where
    c: "copy_ref r s = (Inr (next_ref s),
            s\<lparr>objs := (objs s)(next_ref s := c), next_ref := Suc (next_ref s)\<rparr>)"
    and m: "matrix c = CrsMatrix_copy (matrix (objs s r))" by blast
  show ?thesis
    by (rule exI [of _ "c\<lparr>matrix := Scale (matrix c) x\<rparr>"])
       (simp add: mul_scalar_def c m and_then_def set_obj_def)
qed

lemma py_iadd_filled_receiver:
  assumes "Filled (matrix (objs s t))" "Filled (matrix (objs s u))"
    and "NumGlobalNonzeros (matrix (objs s u)) \<le> NumGlobalNonzeros (matrix (objs s t))"
  shows "py_iadd t (MatRef u) s =
           (Inr t,
            set_obj t ((objs s t)\<lparr>matrix := (matrix (objs s t))\<lparr>entries :=
                fmmap_keys (\<lambda>p b. b + value_at (matrix (objs s u)) p) (entries (matrix (objs s t)))\<rparr>\<rparr>)
              (warn_if (\<not> fmdom (entries (matrix (objs s u))) |\<subseteq>| fmdom (entries (matrix (objs s t))))
                 iadd_warning s))"
proof -
  have fill: "fill_ref u s = s"
    using assms(2) by (simp add: fill_ref_def set_obj_def fill_if_unfilled_def)
  show ?thesis
    using assms
    by (simp add: py_iadd_def fill EpetraExt_Add_def Let_def warn_if_def set_obj_def)
qed


lemma accumulate_into_copy:
  assumes valid: "big < next_ref s" "small < next_ref s"
    and rows: "NumGlobalRows (matrix (objs s big)) \<noteq> 0" "NumGlobalRows (matrix (objs s small)) \<noteq> 0"
    and filled: "Filled (matrix (objs s big))" "Filled (matrix (objs s small))"
    and nnz: "NumGlobalNonzeros (matrix (objs s small)) \<le> NumGlobalNonzeros (matrix (objs s big))"
  shows "\<exists>s'. and_then (copy_ref big s) (\<lambda>tempMatrix s3.
               and_then (mul_scalar small x s3) (\<lambda>scaled s4.
               and_then (py_iadd tempMatrix (MatRef scaled) s4) (\<lambda>r s5.
                 (Inr tempMatrix, s5)))) = (Inr (next_ref s), s')
          \<and> entries (matrix (objs s' (next_ref s))) =
              fmmap_keys (\<lambda>p b. b + x * value_at (matrix (objs s small)) p) (entries (matrix (objs s big)))
          \<and> Filled (matrix (objs s' (next_ref s)))
          \<and> warnings s' = warnings s @
              (if fmdom (entries (matrix (objs s small))) |\<subseteq>| fmdom (entries (matrix (objs s big)))
               then [] else [iadd_warning])
          \<and> objs s' big = objs s big \<and> objs s' small = objs s small"
proof -
  let ?t = "next_ref s"
  let ?u = "Suc (next_ref s)"
  from copy_ref_filled [OF rows(1) filled(1)] obtain c where
    c: "copy_ref big s = (Inr ?t, s\<lparr>objs := (objs s)(?t := c), next_ref := ?u\<rparr>)"
    and mc: "matrix c = CrsMatrix_copy (matrix (objs s big))"
    by blast
  let ?s3 = "s\<lparr>objs := (objs s)(?t := c), next_ref := ?u\<rparr>"
  have small3: "objs ?s3 small = objs s small" using valid(2) by simp
  have r3: "NumGlobalRows (matrix (objs ?s3 small)) \<noteq> 0" using rows(2) small3 by simp
  have f3: "Filled (matrix (objs ?s3 small))" using filled(2) small3 by simp
  from mul_scalar_filled [OF r3 f3, of x] obtain d where
    d: "mul_scalar small x ?s3 = (Inr ?u, ?s3\<lparr>objs := (objs ?s3)(?u := d), next_ref := Suc ?u\<rparr>)"
    and md: "matrix d = Scale (CrsMatrix_copy (matrix (objs s small))) x"
    using small3 by auto
  let ?s4 = "?s3\<lparr>objs := (objs ?s3)(?u := d), next_ref := Suc ?u\<rparr>"
  have t4: "objs ?s4 ?t = c" and u4: "objs ?s4 ?u = d" by simp_all
  have f1: "Filled (matrix (objs ?s4 ?t))" using filled(1) by (simp add: mc)
  have f2: "Filled (matrix (objs ?s4 ?u))" using filled(2) by (simp add: md)
  have le: "NumGlobalNonzeros (matrix (objs ?s4 ?u)) \<le> NumGlobalNonzeros (matrix (objs ?s4 ?t))"
    using nnz by (simp add: mc md)
  note iadd = py_iadd_filled_receiver [OF f1 f2 le]
  have run: "and_then (copy_ref big s) (\<lambda>tempMatrix s3.
               and_then (mul_scalar small x s3) (\<lambda>scaled s4.
               and_then (py_iadd tempMatrix (MatRef scaled) s4) (\<lambda>r s5.
                 (Inr tempMatrix, s5)))) =
             (Inr ?t, snd (py_iadd ?t (MatRef ?u) ?s4))"
    using iadd by (simp add: and_then_def c d)
  have ent: "entries (matrix (objs (snd (py_iadd ?t (MatRef ?u) ?s4)) ?t)) =
      fmmap_keys (\<lambda>p b. b + x * value_at (matrix (objs s small)) p) (entries (matrix (objs s big)))"
    using iadd by (simp add: set_obj_def warn_if_def mc md)
  have fil: "Filled (matrix (objs (snd (py_iadd ?t (MatRef ?u) ?s4)) ?t))"
    using filled(1) iadd by (simp add: set_obj_def warn_if_def mc)
  have wrn: "warnings (snd (py_iadd ?t (MatRef ?u) ?s4)) = warnings s @
              (if fmdom (entries (matrix (objs s small))) |\<subseteq>| fmdom (entries (matrix (objs s big)))
               then [] else [iadd_warning])"
    using iadd by (simp add: set_obj_def warn_if_def mc md)
  have keep: "objs (snd (py_iadd ?t (MatRef ?u) ?s4)) big = objs s big"
    "objs (snd (py_iadd ?t (MatRef ?u) ?s4)) small = objs s small"
    using valid iadd by (simp_all add: set_obj_def warn_if_def)
  from run ent fil wrn keep show ?thesis by blast
qed


lemma entry_at_fmmap_keys_add:
  "entry_at (fmmap_keys (\<lambda>p b. b + f p) e) p = (if p |\<in>| fmdom e then entry_at e p + f p else 0)"
  by (cases "fmlookup e p") (auto simp: entry_at_def fmdom_notI dest: fmdomI)

lemma fill_both:
  "next_ref (fill_ref b (fill_ref a s)) = next_ref s"
  "warnings (fill_ref b (fill_ref a s)) = warnings s"
  "objs (fill_ref b (fill_ref a s)) a = fill_if_unfilled (objs s a)"
  "objs (fill_ref b (fill_ref a s)) b = fill_if_unfilled (objs s b)"
  by (simp_all add: fill_ref_def set_obj_def)

lemma add_impl_matrices:
  assumes valid: "self < next_ref s" "oref < next_ref s"
    and rows: "NumGlobalRows (matrix (objs s self)) \<noteq> 0" "NumGlobalRows (matrix (objs s oref)) \<noteq> 0"
  shows "\<exists>s'. add_impl self (MatRef oref) sign s = (Inr (next_ref s), s')
          \<and> entries (matrix (objs s' (next_ref s))) =
              (if NumGlobalNonzeros (matrix (objs s self)) > NumGlobalNonzeros (matrix (objs s oref))
               then fmmap_keys (\<lambda>p b. b + of_int sign * value_at (matrix (objs s oref)) p)
                      (entries (matrix (objs s self)))
               else fmmap_keys (\<lambda>p b. b + of_int sign * value_at (matrix (objs s self)) p)
                      (entries (matrix (objs s oref))))
          \<and> Filled (matrix (objs s' (next_ref s)))
          \<and> warnings s' = warnings s @
              (if NumGlobalNonzeros (matrix (objs s self)) > NumGlobalNonzeros (matrix (objs s oref))
               then (if fmdom (entries (matrix (objs s oref))) |\<subseteq>| fmdom (entries (matrix (objs s self)))
                     then [] else [iadd_warning])
               else (if fmdom (entries (matrix (objs s self))) |\<subseteq>| fmdom (entries (matrix (objs s oref)))
                     then [] else [iadd_warning]))
          \<and> objs s' self = fill_if_unfilled (objs s self)
          \<and> objs s' oref = fill_if_unfilled (objs s oref)"
proof -
  let ?s2 = "fill_ref oref (fill_ref self s)"
  note fb = fill_both [of oref self s]
  have v2: "self < next_ref ?s2" "oref < next_ref ?s2" using valid by (simp_all add: fb)
  have r2: "NumGlobalRows (matrix (objs ?s2 self)) \<noteq> 0" "NumGlobalRows (matrix (objs ?s2 oref)) \<noteq> 0"
    using rows by (simp_all add: fb)
  have f2: "Filled (matrix (objs ?s2 self))" "Filled (matrix (objs ?s2 oref))"
    by (simp_all add: fb)
  show ?thesis
  proof (cases "NumGlobalNonzeros (matrix (objs s self)) > NumGlobalNonzeros (matrix (objs s oref))")
    case True
    then have le: "NumGlobalNonzeros (matrix (objs ?s2 oref)) \<le> NumGlobalNonzeros (matrix (objs ?s2 self))"
      by (simp add: fb)
    from accumulate_into_copy [OF v2(1) v2(2) r2(1) r2(2) f2(1) f2(2) le, of "of_int sign"]
    obtain s' where
      run: "and_then (copy_ref self ?s2) (\<lambda>tempMatrix s3.
               and_then (mul_scalar oref (of_int sign) s3) (\<lambda>scaled s4.
               and_then (py_iadd tempMatrix (MatRef scaled) s4) (\<lambda>r s5.
                 (Inr tempMatrix, s5)))) = (Inr (next_ref ?s2), s')"
      and rest: "entries (matrix (objs s' (next_ref ?s2))) =
          fmmap_keys (\<lambda>p b. b + of_int sign * value_at (matrix (objs ?s2 oref)) p) (entries (matrix (objs ?s2 self)))"
        "Filled (matrix (objs s' (next_ref ?s2)))"
        "warnings s' = warnings ?s2 @
              (if fmdom (entries (matrix (objs ?s2 oref))) |\<subseteq>| fmdom (entries (matrix (objs ?s2 self)))
               then [] else [iadd_warning])"
        "objs s' self = objs ?s2 self" "objs s' oref = objs ?s2 oref"
      by blast
    have "add_impl self (MatRef oref) sign s = (Inr (next_ref s), s')"
      using True run by (simp add: add_impl_def Let_def fb)
    moreover note rest [unfolded fb fields_fill_if_unfilled derived_fill_if_unfilled]
    ultimately show ?thesis using True by (intro exI [of _ s']) simp
  next
    case False
    then have le: "NumGlobalNonzeros (matrix (objs ?s2 self)) \<le> NumGlobalNonzeros (matrix (objs ?s2 oref))"
      by (simp add: fb)
    from accumulate_into_copy [OF v2(2) v2(1) r2(2) r2(1) f2(2) f2(1) le, of "of_int sign"]
    obtain s' where
      run: "and_then (copy_ref oref ?s2) (\<lambda>tempMatrix s3.
               and_then (mul_scalar self (of_int sign) s3) (\<lambda>scaled s4.
               and_then (py_iadd tempMatrix (MatRef scaled) s4) (\<lambda>r s5.
                 (Inr tempMatrix, s5)))) = (Inr (next_ref ?s2), s')"
      and rest: "entries (matrix (objs s' (next_ref ?s2))) =
          fmmap_keys (\<lambda>p b. b + of_int sign * value_at (matrix (objs ?s2 self)) p) (entries (matrix (objs ?s2 oref)))"
        "Filled (matrix (objs s' (next_ref ?s2)))"
        "warnings s' = warnings ?s2 @
              (if fmdom (entries (matrix (objs ?s2 self))) |\<subseteq>| fmdom (entries (matrix (objs ?s2 oref)))
               then [] else [iadd_warning])"
        "objs s' self = objs ?s2 self" "objs s' oref = objs ?s2 oref"
      by blast
    have "add_impl self (MatRef oref) sign s = (Inr (next_ref s), s')"
      using False run by (simp add: add_impl_def Let_def fb)
    moreover note rest [unfolded fb fields_fill_if_unfilled derived_fill_if_unfilled]
    ultimately show ?thesis using False by (intro exI [of _ s']) simp
  qed
qed

text \<open>
  Claim C4. For matrices \<open>A\<close> and \<open>B\<close> (with at least one global row each) such that the
  pattern of \<open>A\<close> is a subset of the pattern of \<open>B\<close>, \<^verbatim>\<open>A + B\<close> and \<^verbatim>\<open>B + A\<close> both
  return a new matrix without a warning; the two results have the pattern of \<open>B\<close> and
  the same value at every position, namely the sum of the operands' values.
\<close>

theorem add_commutes_on_subset_patterns:
  assumes "A < next_ref s" and "B < next_ref s"
    and "NumGlobalRows (matrix (objs s A)) \<noteq> 0" and "NumGlobalRows (matrix (objs s B)) \<noteq> 0"
    and "pattern (matrix (objs s A)) |\<subseteq>| pattern (matrix (objs s B))"
  shows "\<exists>sa sb. py_add A (MatRef B) s = (Inr (next_ref s), sa)
           \<and> py_add B (MatRef A) s = (Inr (next_ref s), sb)
           \<and> pattern (matrix (objs sa (next_ref s))) = pattern (matrix (objs s B))
           \<and> pattern (matrix (objs sb (next_ref s))) = pattern (matrix (objs s B))
           \<and> (\<forall>p. value_at (matrix (objs sa (next_ref s))) p = value_at (matrix (objs sb (next_ref s))) p)
           \<and> (\<forall>p. value_at (matrix (objs sa (next_ref s))) p =
                   value_at (matrix (objs s A)) p + value_at (matrix (objs s B)) p)
           \<and> warnings sa = warnings s \<and> warnings sb = warnings s"
proof -
  let ?eA = "entries (matrix (objs s A))"
  let ?eB = "entries (matrix (objs s B))"
  from assms(5) have sub: "fmdom ?eA |\<subseteq>| fmdom ?eB" by (simp add: pattern_def)
  then have card: "fcard (fmdom ?eA) \<le> fcard (fmdom ?eB)" by (rule fcard_mono)
  then have notgt: "\<not> NumGlobalNonzeros (matrix (objs s A)) > NumGlobalNonzeros (matrix (objs s B))"
    by (simp add: NumGlobalNonzeros_def)
  have zeroA: "\<And>p. p |\<notin>| fmdom ?eB \<Longrightarrow> entry_at ?eA p = 0"
    using sub by (auto intro: entry_at_notin)
  from add_impl_matrices [OF assms(1,2,3,4), of 1] notgt sub obtain sa where
    a1: "add_impl A (MatRef B) 1 s = (Inr (next_ref s), sa)"
    and a2: "entries (matrix (objs sa (next_ref s))) =
               fmmap_keys (\<lambda>p b. b + value_at (matrix (objs s A)) p) ?eB"
    and a3: "warnings sa = warnings s"
    by auto
  have va: "\<And>p. value_at (matrix (objs sa (next_ref s))) p =
                  value_at (matrix (objs s A)) p + value_at (matrix (objs s B)) p"
    using zeroA by (simp add: value_at_def a2 entry_at_fmmap_keys_add entry_at_notin)
  have pa: "pattern (matrix (objs sa (next_ref s))) = pattern (matrix (objs s B))"
    by (simp add: pattern_def a2)
  show ?thesis
  proof (cases "NumGlobalNonzeros (matrix (objs s B)) > NumGlobalNonzeros (matrix (objs s A))")
    case True
    from add_impl_matrices [OF assms(2,1,4,3), of 1] True sub obtain sb where
      b1: "add_impl B (MatRef A) 1 s = (Inr (next_ref s), sb)"
      and b2: "entries (matrix (objs sb (next_ref s))) =
                 fmmap_keys (\<lambda>p b. b + value_at (matrix (objs s A)) p) ?eB"
      and b3: "warnings sb = warnings s"
      by auto
    have "\<And>p. value_at (matrix (objs sb (next_ref s))) p = value_at (matrix (objs sa (next_ref s))) p"
      by (simp add: value_at_def a2 b2)
    moreover have "pattern (matrix (objs sb (next_ref s))) = pattern (matrix (objs s B))"
      by (simp add: pattern_def b2)
    ultimately show ?thesis
      using a1 a3 b1 b3 va pa by (simp add: py_add_def)
  next
    case False
    with card have "fcard (fmdom ?eB) \<le> fcard (fmdom ?eA)"
      by (simp add: NumGlobalNonzeros_def)
    with sub have same: "fmdom ?eA = fmdom ?eB" by (rule fcard_seteq)
    from add_impl_matrices [OF assms(2,1,4,3), of 1] False same obtain sb where
      b1: "add_impl B (MatRef A) 1 s = (Inr (next_ref s), sb)"
      and b2: "entries (matrix (objs sb (next_ref s))) =
                 fmmap_keys (\<lambda>p b. b + value_at (matrix (objs s B)) p) ?eA"
      and b3: "warnings sb = warnings s"
      by auto
    have "\<And>p. value_at (matrix (objs sb (next_ref s))) p =
                value_at (matrix (objs s A)) p + value_at (matrix (objs s B)) p"
      using zeroA same by (simp add: value_at_def b2 entry_at_fmmap_keys_add entry_at_notin)
    moreover have "pattern (matrix (objs sb (next_ref s))) = pattern (matrix (objs s B))"
      by (simp add: pattern_def b2 same)
    ultimately show ?thesis
      using a1 a3 b1 b3 va pa by (simp add: py_add_def)
  qed
qed


lemma entry_at_fmempty [simp]: "entry_at fmempty p = 0"
  by (simp add: entry_at_def)

lemma ex_L_simps:
  "\<not> Filled (matrix ex_L)"
  "NumGlobalRows (matrix ex_L) = 3"
  "entries (matrix ex_L) =
     fmupd (2, 2) 0 (fmupd (1, 1) pi (fmupd (0, 0) 0 (fmupd (2, 0) (5 / 2)
       (fmupd (1, 1) pi (fmupd (0, 1) 10 (fmupd (0, 2) 3 fmempty))))))"
  by (simp_all add: ex_L_def ex_new3_eq addAt_def InsertGlobalValues_def CrsMatrix_new_def
      triples_def NumGlobalRows_def Epetra_Map_def)

lemma arange_3: "arange 3 = NdArray Int64 [0, 1, 2]"
  by (simp add: arange_def numeral_3_eq_3 upt_rec)

lemma ones_3: "ones 3 = [1, 1, 1]"
  by (simp add: ones_def numeral_3_eq_3)

lemma ex_identity3_simps:
  "\<not> Filled (matrix ex_identity3)"
  "NumGlobalRows (matrix ex_identity3) = 3"
  "entries (matrix ex_identity3) = fmupd (2, 2) 1 (fmupd (1, 1) 1 (fmupd (0, 0) 1 fmempty))"
  by (simp_all add: ex_identity3_def TrilinosIdentityMatrix_init_def TrilinosMatrix_init_def
      TrilinosMatrixBase_init_def addAt_def InsertGlobalValues_def CrsMatrix_new_def
      triples_def NumGlobalRows_def Epetra_Map_def arange_3 ones_3 int32_of_def Let_def
      upto_rec1)

lemma ex_store_simps [simp]:
  "objs (ex_store a b) 0 = a" "objs (ex_store a b) (Suc n) = b" "objs (ex_store a b) 1 = b"
  "next_ref (ex_store a b) = 2" "warnings (ex_store a b) = []"
  by (simp_all add: ex_store_def)

lemma ex_single_rows [simp]: "NumGlobalRows (matrix (ex_single x)) = 3"
  by (simp add: ex_single_eq ex_new3_eq NumGlobalRows_def CrsMatrix_new_def Epetra_Map_def)

lemma doctest_sum_run:
  "\<exists>s'. py_add 0 (MatRef 1) (ex_store ex_L ex_identity3) = (Inr 2, s')
     \<and> entries (matrix (objs s' 2)) =
         fmmap_keys (\<lambda>p b. b + value_at (matrix ex_identity3) p) (entries (matrix ex_L))
     \<and> warnings s' = []"
proof -
  let ?s = "ex_store ex_L ex_identity3"
  have gt: "NumGlobalNonzeros (matrix (objs ?s 0)) > NumGlobalNonzeros (matrix (objs ?s 1))"
    by (simp add: NumGlobalNonzeros_def ex_L_simps ex_identity3_simps fcard_finsert_if)
  have sub: "fmdom (entries (matrix (objs ?s 1))) |\<subseteq>| fmdom (entries (matrix (objs ?s 0)))"
    by (simp add: ex_L_simps ex_identity3_simps)
  have "0 < next_ref ?s" "1 < next_ref ?s"
    "NumGlobalRows (matrix (objs ?s 0)) \<noteq> 0" "NumGlobalRows (matrix (objs ?s 1)) \<noteq> 0"
    by (simp_all add: ex_L_simps ex_identity3_simps)
  from add_impl_matrices [OF this, of 1] gt sub obtain s' where
    "add_impl 0 (MatRef 1) 1 ?s = (Inr 2, s')"
    "entries (matrix (objs s' 2)) =
        fmmap_keys (\<lambda>p b. b + value_at (matrix ex_identity3) p) (entries (matrix ex_L))"
    "warnings s' = []"
    by auto
  then show ?thesis by (simp add: py_add_def)
qed

text \<open>
  Claim C8, as amended. The doctest matrix plus the 3 by 3 identity has row 0 =
  \<open>(1, 10, 3)\<close>, row 1 = \<open>(0, 1 + \<pi>, 0)\<close> and row 2 = \<open>(2.5, 0, 1)\<close>; the three zeros
  off the diagonal are unstored positions.
\<close>

theorem doctest_sum_with_identity:
  "\<exists>s'. py_add 0 (MatRef 1) (ex_store ex_L ex_identity3) = (Inr 2, s')
     \<and> value_at (matrix (objs s' 2)) (0, 0) = 1
     \<and> value_at (matrix (objs s' 2)) (0, 1) = 10
     \<and> value_at (matrix (objs s' 2)) (0, 2) = 3
     \<and> value_at (matrix (objs s' 2)) (1, 0) = 0
     \<and> value_at (matrix (objs s' 2)) (1, 1) = 1 + pi
     \<and> value_at (matrix (objs s' 2)) (1, 2) = 0
     \<and> value_at (matrix (objs s' 2)) (2, 0) = 5 / 2
     \<and> value_at (matrix (objs s' 2)) (2, 1) = 0
     \<and> value_at (matrix (objs s' 2)) (2, 2) = 1
     \<and> (1, 0) |\<notin>| pattern (matrix (objs s' 2))
     \<and> (1, 2) |\<notin>| pattern (matrix (objs s' 2))
     \<and> (2, 1) |\<notin>| pattern (matrix (objs s' 2))
     \<and> warnings s' = []"
proof -
  from doctest_sum_run obtain s' where
    run: "py_add 0 (MatRef 1) (ex_store ex_L ex_identity3) = (Inr 2, s')"
    and ent: "entries (matrix (objs s' 2)) =
        fmmap_keys (\<lambda>p b. b + value_at (matrix ex_identity3) p) (entries (matrix ex_L))"
    and wrn: "warnings s' = []"
    by blast
  have "value_at (matrix (objs s' 2)) (0, 0) = 1"
    "value_at (matrix (objs s' 2)) (0, 1) = 10"
    "value_at (matrix (objs s' 2)) (0, 2) = 3"
    "value_at (matrix (objs s' 2)) (1, 0) = 0"
    "value_at (matrix (objs s' 2)) (1, 1) = 1 + pi"
    "value_at (matrix (objs s' 2)) (1, 2) = 0"
    "value_at (matrix (objs s' 2)) (2, 0) = 5 / 2"
    "value_at (matrix (objs s' 2)) (2, 1) = 0"
    "value_at (matrix (objs s' 2)) (2, 2) = 1"
    by (simp_all add: value_at_def ent entry_at_fmmap_keys_add ex_L_simps ex_identity3_simps)
  moreover have "(1, 0) |\<notin>| pattern (matrix (objs s' 2))"
    "(1, 2) |\<notin>| pattern (matrix (objs s' 2))"
    "(2, 1) |\<notin>| pattern (matrix (objs s' 2))"
    by (simp_all add: pattern_def ent ex_L_simps)
  ultimately show ?thesis using run wrn by blast
qed

text \<open>
  Claim C8 fails at the centre: the entry at \<open>(1, 1)\<close> is \<open>1 + \<pi>\<close> (the doctest prints
  4.141593), not \<open>4 + \<pi>\<close>.
\<close>

theorem doctest_sum_with_identity_counterexample:
  "fst (py_add 0 (MatRef 1) (ex_store ex_L ex_identity3)) = Inr 2
   \<and> value_at (matrix (objs (snd (py_add 0 (MatRef 1) (ex_store ex_L ex_identity3))) 2)) (1, 1) = 1 + pi
   \<and> value_at (matrix (objs (snd (py_add 0 (MatRef 1) (ex_store ex_L ex_identity3))) 2)) (1, 1) \<noteq> 4 + pi"
proof -
  from doctest_sum_run obtain s' where
    run: "py_add 0 (MatRef 1) (ex_store ex_L ex_identity3) = (Inr 2, s')"
    and ent: "entries (matrix (objs s' 2)) =
        fmmap_keys (\<lambda>p b. b + value_at (matrix ex_identity3) p) (entries (matrix ex_L))"
    by blast
  have "value_at (matrix (objs s' 2)) (1, 1) = 1 + pi"
    by (simp add: value_at_def ent entry_at_fmmap_keys_add ex_L_simps ex_identity3_simps)
  with run show ?thesis by simp
qed

lemma py_sub_matrices:
  assumes "A < next_ref s" "B < next_ref s"
    and "NumGlobalRows (matrix (objs s A)) \<noteq> 0" "NumGlobalRows (matrix (objs s B)) \<noteq> 0"
  shows "\<exists>s'. py_sub A (MatRef B) s = (Inr (next_ref s), s')
          \<and> (\<forall>p. value_at (matrix (objs s' (next_ref s))) p =
                 (if NumGlobalNonzeros (matrix (objs s A)) > NumGlobalNonzeros (matrix (objs s B))
                  then (if p |\<in>| pattern (matrix (objs s A))
                        then value_at (matrix (objs s A)) p - value_at (matrix (objs s B)) p else 0)
                  else (if p |\<in>| pattern (matrix (objs s B))
                        then value_at (matrix (objs s B)) p - value_at (matrix (objs s A)) p else 0)))"
proof -
  from add_impl_matrices [OF assms, of "- 1"] obtain s' where
    run: "add_impl A (MatRef B) (- 1) s = (Inr (next_ref s), s')"
    and ent: "entries (matrix (objs s' (next_ref s))) =
              (if NumGlobalNonzeros (matrix (objs s A)) > NumGlobalNonzeros (matrix (objs s B))
               then fmmap_keys (\<lambda>p b. b + of_int (- 1) * value_at (matrix (objs s B)) p)
                      (entries (matrix (objs s A)))
               else fmmap_keys (\<lambda>p b. b + of_int (- 1) * value_at (matrix (objs s A)) p)
                      (entries (matrix (objs s B))))"
    by blast
  have "py_sub A (MatRef B) s = (Inr (next_ref s), s')"
    using run by (simp add: py_sub_def)
  moreover have "\<forall>p. value_at (matrix (objs s' (next_ref s))) p =
                 (if NumGlobalNonzeros (matrix (objs s A)) > NumGlobalNonzeros (matrix (objs s B))
                  then (if p |\<in>| pattern (matrix (objs s A))
                        then value_at (matrix (objs s A)) p - value_at (matrix (objs s B)) p else 0)
                  else (if p |\<in>| pattern (matrix (objs s B))
                        then value_at (matrix (objs s B)) p - value_at (matrix (objs s A)) p else 0))"
    by (simp add: ent value_at_def pattern_def
        entry_at_fmmap_keys_add [where f = "\<lambda>p. - entry_at m p" for m, simplified])
  ultimately show ?thesis by blast
qed

text \<open>
  Claim C1 fails on the code. With \<open>A\<close> holding 1 and \<open>B\<close> holding 3 at \<open>(0, 0)\<close> (equal
  patterns, so \<open>A\<close> does not have more nonzeros), \<^verbatim>\<open>A - B\<close> returns a matrix holding 2 at
  \<open>(0, 0)\<close>, which is \<open>B - A\<close>; the difference \<open>A - B\<close> is \<open>-2\<close>.
\<close>

theorem sub_with_fewer_nonzeros_is_reversed:
  "pattern (matrix (ex_single 1)) |\<subseteq>| pattern (matrix (ex_single 3))
   \<and> fst (py_sub 0 (MatRef 1) (ex_store (ex_single 1) (ex_single 3))) = Inr 2
   \<and> value_at (matrix (objs (snd (py_sub 0 (MatRef 1) (ex_store (ex_single 1) (ex_single 3)))) 2)) (0, 0) = 2
   \<and> value_at (matrix (ex_single 1)) (0, 0) - value_at (matrix (ex_single 3)) (0, 0) = - 2"
proof -
  let ?s = "ex_store (ex_single 1) (ex_single 3)"
  have "0 < next_ref ?s" "1 < next_ref ?s"
    "NumGlobalRows (matrix (objs ?s 0)) \<noteq> 0" "NumGlobalRows (matrix (objs ?s 1)) \<noteq> 0"
    by simp_all
  from py_sub_matrices [OF this] obtain s' where
    run: "py_sub 0 (MatRef 1) ?s = (Inr 2, s')"
    and val: "\<forall>p. value_at (matrix (objs s' 2)) p =
                 (if NumGlobalNonzeros (matrix (ex_single 1)) > NumGlobalNonzeros (matrix (ex_single 3))
                  then (if p |\<in>| pattern (matrix (ex_single 1))
                        then value_at (matrix (ex_single 1)) p - value_at (matrix (ex_single 3)) p else 0)
                  else (if p |\<in>| pattern (matrix (ex_single 3))
                        then value_at (matrix (ex_single 3)) p - value_at (matrix (ex_single 1)) p else 0))"
    by auto
  from val have "value_at (matrix (objs s' 2)) (0, 0) = 2"
    by (simp add: NumGlobalNonzeros_def pattern_def value_at_def ex_single_simps)
  with run show ?thesis
    by (simp add: pattern_def value_at_def ex_single_simps)
qed

theorem add_commutes_on_subset_patterns_witness:
  "(0::nat) < next_ref (ex_store (ex_single 1) ex_L)
   \<and> pattern (matrix (ex_single 1)) |\<subseteq>| pattern (matrix ex_L)
   \<and> (\<exists>sa sb. py_add 0 (MatRef 1) (ex_store (ex_single 1) ex_L) = (Inr 2, sa)
          \<and> py_add 1 (MatRef 0) (ex_store (ex_single 1) ex_L) = (Inr 2, sb)
          \<and> value_at (matrix (objs sa 2)) (0, 0) = 1 \<and> value_at (matrix (objs sb 2)) (0, 0) = 1
          \<and> value_at (matrix (objs sa 2)) (1, 1) = pi \<and> value_at (matrix (objs sb 2)) (1, 1) = pi)"
proof -
  let ?s = "ex_store (ex_single 1) ex_L"
  have sub: "pattern (matrix (objs ?s 0)) |\<subseteq>| pattern (matrix (objs ?s 1))"
    by (simp add: pattern_def ex_single_simps ex_L_simps)
  have "0 < next_ref ?s" "1 < next_ref ?s"
    "NumGlobalRows (matrix (objs ?s 0)) \<noteq> 0" "NumGlobalRows (matrix (objs ?s 1)) \<noteq> 0"
    by (simp_all add: ex_L_simps)
  from add_commutes_on_subset_patterns [OF this sub] obtain sa sb where
    "py_add 0 (MatRef 1) ?s = (Inr 2, sa)" "py_add 1 (MatRef 0) ?s = (Inr 2, sb)"
    and eq: "\<forall>p. value_at (matrix (objs sa 2)) p = value_at (matrix (objs sb 2)) p"
    and val: "\<forall>p. value_at (matrix (objs sa 2)) p = value_at (matrix (ex_single 1)) p + value_at (matrix ex_L) p"
    by auto
  moreover from val have "value_at (matrix (objs sa 2)) (0, 0) = 1" "value_at (matrix (objs sa 2)) (1, 1) = pi"
    by (simp_all add: value_at_def ex_single_simps ex_L_simps)
  moreover from this eq have "value_at (matrix (objs sb 2)) (0, 0) = 1" "value_at (matrix (objs sb 2)) (1, 1) = pi"
    by simp_all
  ultimately show ?thesis using sub by auto
qed

subsection \<open>Translation of local indices\<close>







subsection \<open>Vector redistribution round trip\<close>

lemma concat_only_root:
  assumes "0 < P"
  shows "concat (map (\<lambda>pid. f (if pid = 0 then n else 0)) [0..<P]) = f n @ concat (replicate (P - 1) (f (0::nat)))"
proof -
  have tail: "map (\<lambda>pid. f (if pid = 0 then n else 0)) [Suc 0..<P] = replicate (P - Suc 0) (f 0)"
  proof -
    have "map (\<lambda>pid. f (if pid = 0 then n else 0)) [Suc 0..<P] = map (\<lambda>pid. f 0) [Suc 0..<P]"
      by (rule map_cong [OF refl]) simp
    then show ?thesis by (simp add: map_replicate_const)
  qed
  have "[0..<P] = 0 # [Suc 0..<P]" using assms by (simp add: upt_conv_Cons)
  then show ?thesis by (simp add: tail)
qed

lemma concat_replicate_Nil [simp]: "concat (replicate k []) = []"
  by (induction k) simp_all

lemma map_of_zip_upt:
  "map_of (zip (map int [0..<length v]) v) =
     (\<lambda>g. if g \<in> set (map int [0..<length v]) then Some (v ! nat g) else None)"
proof -
  have "map (\<lambda>g. v ! nat g) (map int [0..<length v]) = v"
    by (simp add: o_def map_nth)
  then have "zip (map int [0..<length v]) v =
      zip (map int [0..<length v]) (map (\<lambda>g. v ! nat g) (map int [0..<length v]))"
    by (rule arg_cong [where f = "zip (map int [0..<length v])", OF sym])
  then show ?thesis by (simp only: map_of_zip_map)
qed

lemma value_of_gid_root:
  assumes "0 < P"
  shows "value_of_gid
           \<lparr>vmap = map (\<lambda>pid. map int [0..<(if pid = 0 then length v else 0)]) [0..<P],
            vvalues = map (\<lambda>pid. take (if pid = 0 then length v else 0) v) [0..<P]\<rparr> g =
         (if g \<in> set (map int [0..<length v]) then Some (v ! nat g) else None)"
proof -
  have "concat (map (\<lambda>pid. map int [0..<(if pid = 0 then length v else 0)]) [0..<P]) = map int [0..<length v]"
    using concat_only_root [OF assms, of "\<lambda>k. map int [0..<k]" "length v"] by simp
  moreover have "concat (map (\<lambda>pid. take (if pid = 0 then length v else 0) v) [0..<P]) = v"
    using concat_only_root [OF assms, of "\<lambda>k. take k v" "length v"] by simp
  ultimately show ?thesis
    by (simp add: value_of_gid_def map_of_zip_upt)
qed

lemma scatter_values:
  assumes "NumProc m \<noteq> 1" "m \<noteq> []" "set (concat m) \<subseteq> set (map int [0..<length v])"
  shows "numpyToTrilinosVector v m = \<lparr>vmap = m, vvalues = map (map (\<lambda>g. v ! nat g)) m\<rparr>"
proof -
  have P: "0 < NumProc m" using assms(2) by (simp add: NumProc_def)
  have "map (map (\<lambda>g. case (if g \<in> set (map int [0..<length v]) then Some (v ! nat g) else None) of
                          Some x \<Rightarrow> x | None \<Rightarrow> 0)) m = map (map (\<lambda>g. v ! nat g)) m"
  proof (rule map_cong [OF refl], rule map_cong [OF refl])
    fix gs g assume "gs \<in> set m" "g \<in> set gs"
    then have "g \<in> set (concat m)" by auto
    with assms(3) have "g \<in> set (map int [0..<length v])" by blast
    then show "(case (if g \<in> set (map int [0..<length v]) then Some (v ! nat g) else None) of
                  Some x \<Rightarrow> x | None \<Rightarrow> 0) = v ! nat g" by simp
  qed
  then show ?thesis
    using assms(1) by (simp add: numpyToTrilinosVector_def Let_def Import_Insert_def value_of_gid_root [OF P])
qed

lemma gather_values:
  assumes "NumProc m \<noteq> 1" "distinct (concat m)" "set (concat m) = set (map int [0..<length v])"
  shows "trilinosToNumpyVector \<lparr>vmap = m, vvalues = map (map (\<lambda>g. v ! nat g)) m\<rparr> = replicate (NumProc m) v"
proof -
  let ?d = "\<lparr>vmap = m, vvalues = map (map (\<lambda>g. v ! nat g)) m\<rparr>"
  have "length (concat m) = card (set (concat m))"
    by (rule distinct_card [OF assms(2), symmetric])
  also have "\<dots> = card (set (map int [0..<length v]))" by (simp only: assms(3))
  also have "\<dots> = length v"
  proof -
    have "distinct (map int [0..<length v])" by (simp add: distinct_map)
    from distinct_card [OF this] show ?thesis by simp
  qed
  finally have gl: "GlobalLength ?d = length v" by (simp add: GlobalLength_def)
  have vg: "value_of_gid ?d = (\<lambda>g. if g \<in> set (concat m) then Some (v ! nat g) else None)"
  proof -
    have c: "concat (map (map (\<lambda>g. v ! nat g)) m) = map (\<lambda>g. v ! nat g) (concat m)"
      by (simp add: map_concat)
    have "value_of_gid ?d = map_of (zip (concat m) (map (\<lambda>g. v ! nat g) (concat m)))"
      by (rule ext) (simp only: value_of_gid_def epetra_vector.select_convs c)
    then show ?thesis by (simp only: map_of_zip_map)
  qed
  have one: "map (\<lambda>g. case value_of_gid ?d g of Some x \<Rightarrow> x | None \<Rightarrow> 0) (map int [0..<length v]) = v"
  proof -
    have "map (\<lambda>g. case value_of_gid ?d g of Some x \<Rightarrow> x | None \<Rightarrow> 0) (map int [0..<length v])
          = map (\<lambda>g. v ! nat g) (map int [0..<length v])"
    proof (rule map_cong [OF refl])
      fix g assume "g \<in> set (map int [0..<length v])"
      then have "g \<in> set (concat m)" by (simp only: assms(3))
      then show "(case value_of_gid ?d g of Some x \<Rightarrow> x | None \<Rightarrow> 0) = v ! nat g"
        by (simp only: vg if_True option.case)
    qed
    also have "\<dots> = v" by (simp add: o_def map_nth)
    finally show ?thesis .
  qed
  show ?thesis
    using assms(1)
    by (simp add: trilinosToNumpyVector_def Let_def Import_Insert_def gl one NumProc_def
        map_replicate_const del: map_map)
qed

text \<open>
  Claim C9. With one process, or with a non-overlapping map whose global IDs are exactly
  the indices of \<open>v\<close>, converting the replicated vector \<open>v\<close> to a distributed vector and
  back leaves every process with \<open>v\<close>.
\<close>

theorem scatter_gather_roundtrip:
  assumes "m \<noteq> []"
    and "NumProc m = 1 \<or> (distinct (concat m) \<and> set (concat m) = set (map int [0..<length v]))"
  shows "trilinosToNumpyVector (numpyToTrilinosVector v m) = replicate (NumProc m) v"
proof (cases "NumProc m = 1")
  case True
  then show ?thesis
    by (simp add: numpyToTrilinosVector_def trilinosToNumpyVector_def NumProc_def)
next
  case False
  with assms(2) have wf: "distinct (concat m)" "set (concat m) = set (map int [0..<length v])"
    by simp_all
  from wf(2) have "set (concat m) \<subseteq> set (map int [0..<length v])" by simp
  from scatter_values [OF False assms(1) this] gather_values [OF False wf]
  show ?thesis by simp
qed

theorem scatter_gather_roundtrip_witness:
  "NumProc [[0, 2], [1]] = 2
   \<and> distinct (concat [[0, 2], [1 :: int]])
   \<and> trilinosToNumpyVector (numpyToTrilinosVector [10, 20, 30] [[0, 2], [1]]) = [[10, 20, 30], [10, 20, 30]]
   \<and> numpyToTrilinosVector [10, 20, 30] [[0, 2], [1]] = \<lparr>vmap = [[0, 2], [1]], vvalues = [[10, 30], [20]]\<rparr>
   \<and> trilinosToNumpyVector (numpyToTrilinosVector [10, 20, 30] [[5, 7, 9]]) = [[10, 20, 30]]"
proof -
  have ne: "[[0, 2], [1 :: int]] \<noteq> []" by simp
  have up: "[0..<3] = [0, 1, 2]" by (simp add: numeral_3_eq_3 upt_rec)
  have wf: "NumProc [[0, 2], [1 :: int]] = 1 \<or> (distinct (concat [[0, 2], [1 :: int]])
      \<and> set (concat [[0, 2], [1 :: int]]) = set (map int [0..<length [10, 20, 30 :: real]]))"
    by (auto simp: up)
  have s: "numpyToTrilinosVector [10, 20, 30] [[0, 2], [1]] = \<lparr>vmap = [[0, 2], [1]], vvalues = [[10, 30], [20]]\<rparr>"
    using scatter_values [of "[[0, 2], [1]]" "[10, 20, 30]"] by (simp add: NumProc_def up)
  have one: "NumProc [[5, 7, 9 :: int]] = 1 \<or> (distinct (concat [[5, 7, 9 :: int]])
      \<and> set (concat [[5, 7, 9 :: int]]) = set (map int [0..<length [10, 20, 30 :: real]]))"
    by (simp add: NumProc_def)
  from scatter_gather_roundtrip [OF ne wf] scatter_gather_roundtrip [OF _ one] s
  show ?thesis by (simp add: NumProc_def numeral_2_eq_2)
qed

end
